theory Spec2Isabelle
  imports Main "HOL-Library.Word"
begin

section \<open>JavaScript strings\<close>

text \<open>
  A JavaScript string is a sequence of UTF-16 code units, and \<open>length\<close> counts code
  units. Strings are therefore lists of 16-bit words; \<open>js\<close> embeds an ASCII literal.
\<close>

type_synonym js_string = "16 word list"

definition js :: "string \<Rightarrow> js_string" where
  "js s = map of_char s"

text \<open>\<open>Array.prototype.join\<close> on an array of strings.\<close>

fun join :: "js_string \<Rightarrow> js_string list \<Rightarrow> js_string" where
  "join sep [] = []"
| "join sep [x] = x"
| "join sep (x # y # ys) = x @ sep @ join sep (y # ys)"

section \<open>Proposal body composer: \<open>getVersionPrBody\<close>\<close>

text \<open>
  \<open>GetMessageOptions.changedPackagesInfo\<close>. The field \<open>private\<close> is named
  \<open>info_private\<close> here. \<open>PreState\<close> comes from an external package; only its
  \<open>tag\<close> is read in this file, and the composer only tests its presence.
\<close>

record changed_package_info =
  highestLevel :: int
  info_private :: bool
  content :: js_string
  header :: js_string

datatype pre_state = PreState (tag: js_string)

definition messageHeader :: "bool \<Rightarrow> js_string \<Rightarrow> js_string" where
  "messageHeader hasPublishScript branch =
     js ''This PR was opened by the [Changesets release](https://github.com/changesets/action) GitHub action. When you're ready to do a release, you can merge this and ''
     @ (if hasPublishScript
        then js ''the packages will be published to npm automatically''
        else js ''publish to npm yourself or [setup this action to publish automatically](https://github.com/changesets/action#with-publishing)'')
     @ js ''. If you're not ready to do a release yet, that's fine, whenever you add more changesets to ''
     @ branch
     @ js '', this PR will be updated.\<newline>''"

text \<open>The warning sign of the source is U+26A0 U+FE0F: two code units, six times a row.\<close>

definition warning_row :: js_string where
  "warning_row = concat (replicate 6 [0x26A0, 0xFE0F])"

definition messagePrestate :: "pre_state option \<Rightarrow> js_string \<Rightarrow> js_string" where
  "messagePrestate preState branch =
     (case preState of
        Some _ \<Rightarrow>
          warning_row @ js ''\<newline>\<newline>`'' @ branch
          @ js ''` is currently in **pre mode** so this branch has prereleases rather than normal releases. If you want to exit prereleases, run `changeset pre exit` on `''
          @ branch @ js ''`.\<newline>\<newline>'' @ warning_row @ js ''\<newline>''
      | None \<Rightarrow> [])"

definition messageReleasesHeading :: js_string where
  "messageReleasesHeading = js ''# Releases''"

definition contents_omitted_notice :: js_string where
  "contents_omitted_notice =
     js ''\<newline>> The changelog information of each package has been omitted from this message, as the content exceeds the size limit.\<newline>''"

definition all_omitted_notice :: js_string where
  "all_omitted_notice =
     js ''\<newline>> All release information have been omitted from this message, as the content exceeds the size limit.''"

text \<open>The three array literals of the source, each joined with a newline.\<close>

definition raw_message ::
  "bool \<Rightarrow> pre_state option \<Rightarrow> changed_package_info list \<Rightarrow> js_string \<Rightarrow> js_string" where
  "raw_message hasPublishScript preState changedPackagesInfo branch =
     join (js ''\<newline>'')
       ([messageHeader hasPublishScript branch, messagePrestate preState branch,
         messageReleasesHeading]
        @ map (\<lambda>info. header info @ js ''\<newline>\<newline>'' @ content info) changedPackagesInfo)"

definition contents_omitted_message ::
  "bool \<Rightarrow> pre_state option \<Rightarrow> changed_package_info list \<Rightarrow> js_string \<Rightarrow> js_string" where
  "contents_omitted_message hasPublishScript preState changedPackagesInfo branch =
     join (js ''\<newline>'')
       ([messageHeader hasPublishScript branch, messagePrestate preState branch,
         messageReleasesHeading, contents_omitted_notice]
        @ map (\<lambda>info. header info @ js ''\<newline>\<newline>'') changedPackagesInfo)"

definition all_omitted_message :: "bool \<Rightarrow> pre_state option \<Rightarrow> js_string \<Rightarrow> js_string" where
  "all_omitted_message hasPublishScript preState branch =
     join (js ''\<newline>'')
       [messageHeader hasPublishScript branch, messagePrestate preState branch,
        messageReleasesHeading, all_omitted_notice]"

text \<open>
  \<open>fullMessage\<close> after the first size check, and the returned body after the second.
  \<open>prBodyMaxCharacters\<close> is a JavaScript number; it is an integer here (the action
  passes 60000).
\<close>

definition after_first_check ::
  "bool \<Rightarrow> pre_state option \<Rightarrow> changed_package_info list \<Rightarrow> int \<Rightarrow> js_string \<Rightarrow> js_string" where
  "after_first_check hasPublishScript preState changedPackagesInfo prBodyMaxCharacters branch =
     (let fullMessage = raw_message hasPublishScript preState changedPackagesInfo branch
      in if int (length fullMessage) > prBodyMaxCharacters
         then contents_omitted_message hasPublishScript preState changedPackagesInfo branch
         else fullMessage)"

definition getVersionPrBody ::
  "bool \<Rightarrow> pre_state option \<Rightarrow> changed_package_info list \<Rightarrow> int \<Rightarrow> js_string \<Rightarrow> js_string" where
  "getVersionPrBody hasPublishScript preState changedPackagesInfo prBodyMaxCharacters branch =
     (let fullMessage =
            after_first_check hasPublishScript preState changedPackagesInfo
              prBodyMaxCharacters branch
      in if int (length fullMessage) > prBodyMaxCharacters
         then all_omitted_message hasPublishScript preState branch
         else fullMessage)"

section \<open>Errors, the environment and effects\<close>

text \<open>
  A thrown value is an error object with a message and, when the thrower set one, a
  \<open>code\<close> property (Node's file-system errors carry codes such as \<open>ENOENT\<close>;
  \<open>new Error(...)\<close> carries none).
\<close>

datatype js_error = JsError (code: "js_string option") (message: js_string)

text \<open>\<open>Package\<close> of the package registry reader: directory and the fields read of \<open>packageJson\<close>.\<close>

record package =
  pkg_dir :: js_string
  pkg_name :: js_string
  pkg_version :: js_string
  pkg_private :: bool

record changelog_entry =
  entry_content :: js_string
  entry_highestLevel :: int

text \<open>An HTTP response of \<open>fetch\<close>, with the value its \<open>json()\<close> yields.\<close>

record 'a response =
  res_ok :: bool
  res_status :: nat
  res_statusText :: js_string
  res_json :: 'a

text \<open>The fields read of \<open>GiteaPullRequest\<close> and \<open>GiteaRelease\<close>, and of a search item.\<close>

record gitea_pull_request =
  pr_number :: nat
  base_ref :: js_string
  base_repo_full_name :: js_string
  head_ref :: js_string
  head_repo_full_name :: js_string

record gitea_release =
  tag_name :: js_string

record octokit_item =
  item_number :: nat

text \<open>The body of a release-creation request, the same on both backends.\<close>

record release_request =
  rel_name :: js_string
  rel_tag_name :: js_string
  rel_body :: js_string
  rel_prerelease :: bool

datatype git_call =
    SwitchToMaybeExistingBranch js_string
  | Reset js_string
  | CommitAll js_string
  | Push js_string bool
  | PushTags

text \<open>
  What a run does to the outside world, in the order it does it: subprocesses, calls of
  the VCS facade, and requests to either backend (method, URL and JSON body for the
  alternate one; the arguments for the primary one, its owner and repository last).
  Request headers and the log lines written with \<open>core.info\<close> and
  \<open>core.warning\<close> are left out.
\<close>

datatype effect =
    Exec js_string "js_string list"
  | Git git_call
  | GiteaCreateRelease js_string release_request
  | OctokitCreateRelease release_request js_string js_string
  | GiteaListReleases js_string
  | GiteaListPulls js_string
  | OctokitSearch js_string
  | GiteaCreatePull js_string js_string js_string js_string js_string
  | OctokitCreatePull js_string js_string js_string js_string js_string js_string
  | GiteaUpdatePull js_string js_string js_string
  | OctokitUpdatePull nat js_string js_string js_string js_string

text \<open>
  Everything the functions of \<open>run.ts\<close> obtain from outside: the process
  environment, the GitHub context, the file system, subprocesses, the network, and the
  helpers of this repository that live in other files (\<open>getChangelogEntry\<close>,
  \<open>getChangedPackages\<close>, \<open>sortTheThings\<close>, \<open>getVersionsByDirectory\<close>,
  \<open>gitUtils\<close>, \<open>readChangesetState\<close>), taken as parameters.
  \<open>readChangelog d\<close> stands for
  \<open>fs.readFile(path.join(d, "CHANGELOG.md"), "utf8")\<close>; \<open>getChangelogEntry\<close>
  returns \<open>None\<close> for a falsy result; \<open>sortThings\<close> stands for
  \<open>.sort(sortTheThings)\<close>.
\<close>

record env =
  GITEA_API_URL :: "js_string option"
  context_owner :: js_string
  context_repo :: js_string
  context_ref :: js_string
  context_sha :: js_string
  cwd :: js_string
  readChangelog :: "js_string \<Rightarrow> js_error + js_string"
  getChangelogEntry :: "js_string \<Rightarrow> js_string \<Rightarrow> changelog_entry option"
  getExecOutput :: "js_string \<Rightarrow> js_string list \<Rightarrow> js_error + js_string"
  exec :: "js_string \<Rightarrow> js_string list \<Rightarrow> js_error + unit"
  git :: "git_call \<Rightarrow> js_error + unit"
  checkIfClean :: "js_error + bool"
  getPackages :: "js_error + package list \<times> js_string"
  readChangesetState :: "js_error + pre_state option"
  getVersionsByDirectory :: "js_error + (js_string \<times> js_string) list"
  getChangedPackages :: "(js_string \<times> js_string) list \<Rightarrow> js_error + package list"
  sortThings :: "changed_package_info list \<Rightarrow> changed_package_info list"
  requireChangesetsCliVersion :: "js_error + js_string"
  semver_lt :: "js_string \<Rightarrow> js_string \<Rightarrow> js_error + bool"
  resolveFrom :: "js_string \<Rightarrow> js_error + js_string"
  fetch_create_release :: "js_string \<Rightarrow> release_request \<Rightarrow> js_error + unit response"
  octokit_createRelease :: "release_request \<Rightarrow> js_error + unit"
  fetch_releases :: "js_string \<Rightarrow> js_error + gitea_release list response"
  fetch_pulls :: "js_string \<Rightarrow> js_error + gitea_pull_request list response"
  octokit_search :: "js_string \<Rightarrow> js_error + octokit_item list"
  fetch_create_pull ::
    "js_string \<Rightarrow> js_string \<Rightarrow> js_string \<Rightarrow> js_string \<Rightarrow> js_string
       \<Rightarrow> js_error + gitea_pull_request response"
  octokit_pulls_create ::
    "js_string \<Rightarrow> js_string \<Rightarrow> js_string \<Rightarrow> js_string \<Rightarrow> js_error + octokit_item"
  fetch_update_pull ::
    "js_string \<Rightarrow> js_string \<Rightarrow> js_string \<Rightarrow> js_error + gitea_pull_request response"
  octokit_pulls_update :: "nat \<Rightarrow> js_string \<Rightarrow> js_string \<Rightarrow> js_error + unit"

text \<open>
  An asynchronous computation: it extends the log of effects and either throws or
  returns. \<open>perform\<close> records one effect and yields what the outside answered.
\<close>

type_synonym 'a io = "effect list \<Rightarrow> (js_error + 'a) \<times> effect list"

definition return_io :: "'a \<Rightarrow> 'a io" where
  "return_io x = (\<lambda>log. (Inr x, log))"

definition throw_io :: "js_error \<Rightarrow> 'a io" where
  "throw_io e = (\<lambda>log. (Inl e, log))"

definition bind_io :: "'a io \<Rightarrow> ('a \<Rightarrow> 'b io) \<Rightarrow> 'b io" where
  "bind_io m f =
     (\<lambda>log. case m log of (Inl e, log') \<Rightarrow> (Inl e, log') | (Inr x, log') \<Rightarrow> f x log')"

definition catch_io :: "'a io \<Rightarrow> (js_error \<Rightarrow> 'a io) \<Rightarrow> 'a io" where
  "catch_io m h =
     (\<lambda>log. case m log of (Inl e, log') \<Rightarrow> h e log' | (Inr x, log') \<Rightarrow> (Inr x, log'))"

definition perform :: "effect \<Rightarrow> js_error + 'a \<Rightarrow> 'a io" where
  "perform eff answer = (\<lambda>log. (answer, log @ [eff]))"

definition lift_io :: "js_error + 'a \<Rightarrow> 'a io" where
  "lift_io answer = (\<lambda>log. (answer, log))"

text \<open>
  \<open>Promise.all\<close> over computations that were all started: every member runs to its
  end whatever the others do, and the batch rejects when a member does. The members'
  effects are logged in array order, and the first rejection in array order is the one
  reported.
\<close>

fun promise_all :: "unit io list \<Rightarrow> unit io" where
  "promise_all [] = return_io ()"
| "promise_all (m # ms) =
     (\<lambda>log. case m log of
        (r, log') \<Rightarrow>
          (case promise_all ms log' of
             (rs, log'') \<Rightarrow> (case r of Inl e \<Rightarrow> (Inl e, log'') | Inr _ \<Rightarrow> (rs, log''))))"

text \<open>Truthiness of an environment variable: set and not empty.\<close>

definition truthy :: "js_string option \<Rightarrow> bool" where
  "truthy v = (case v of None \<Rightarrow> False | Some s \<Rightarrow> s \<noteq> [])"

text \<open>Template interpolation of an environment variable and of a number.\<close>

definition env_text :: "js_string option \<Rightarrow> js_string" where
  "env_text v = (case v of None \<Rightarrow> js ''undefined'' | Some s \<Rightarrow> s)"

fun decimal :: "nat \<Rightarrow> js_string" where
  "decimal n = (if n < 10 then [48 + of_nat n] else decimal (n div 10) @ [48 + of_nat (n mod 10)])"

declare decimal.simps [simp del]

fun starts_with :: "js_string \<Rightarrow> js_string \<Rightarrow> bool" where
  "starts_with s [] = True"
| "starts_with [] (p # ps) = False"
| "starts_with (c # cs) (p # ps) = (c = p \<and> starts_with cs ps)"

text \<open>\<open>String.prototype.includes\<close>.\<close>

fun str_includes :: "js_string \<Rightarrow> js_string \<Rightarrow> bool" where
  "str_includes [] needle = (needle = [])"
| "str_includes (c # cs) needle = (starts_with (c # cs) needle \<or> str_includes cs needle)"

definition http_error :: "'a response \<Rightarrow> js_string \<Rightarrow> js_error" where
  "http_error res url =
     JsError None
       (decimal (res_status res) @ js '' '' @ res_statusText res @ js '' ('' @ url @ js '')'')"

section \<open>Release creator: \<open>createRelease\<close>\<close>

definition createRelease :: "env \<Rightarrow> package \<Rightarrow> js_string \<Rightarrow> unit io" where
  "createRelease e pkg tagName =
     catch_io
       (bind_io (lift_io (readChangelog e (pkg_dir pkg))) (\<lambda>changelog.
          case getChangelogEntry e changelog (pkg_version pkg) of
            None \<Rightarrow>
              throw_io (JsError None
                (js ''Could not find changelog entry for '' @ pkg_name pkg @ js ''@''
                 @ pkg_version pkg))
          | Some changelogEntry \<Rightarrow>
              (let request =
                     \<lparr>rel_name = tagName, rel_tag_name = tagName,
                      rel_body = entry_content changelogEntry,
                      rel_prerelease = str_includes (pkg_version pkg) (js ''-'')\<rparr>
               in if truthy (GITEA_API_URL e)
                  then
                    (let url = env_text (GITEA_API_URL e) @ js ''/repos/'' @ context_owner e
                               @ js ''/'' @ context_repo e @ js ''/releases''
                     in bind_io
                          (perform (GiteaCreateRelease url request)
                             (fetch_create_release e url request)) (\<lambda>res.
                        if \<not> res_ok res then throw_io (http_error res url)
                        else return_io ()))
                  else
                    perform (OctokitCreateRelease request (context_owner e) (context_repo e))
                      (octokit_createRelease e request))))
       (\<lambda>err.
          if code err \<noteq> None \<and> code err \<noteq> Some (js ''ENOENT'')
          then throw_io err
          else return_io ())"

section \<open>Regular expressions and splitting\<close>

text \<open>
  The two regular expressions of \<open>runPublish\<close> use literals, greedy \<open>+\<close> over a
  character class, sequence, ordered alternative and capturing groups. The matcher is the
  backtracking one of ECMAScript, written with continuations as the language
  specification does: a matcher takes the rest of the input with the captures so far and
  a continuation for what follows, and returns the captures of the first successful path.
\<close>

datatype regex =
    Lit js_string
  | Plus "16 word \<Rightarrow> bool"
  | Seq regex regex
  | Alt regex regex
  | Group nat regex

type_synonym captures = "nat \<Rightarrow> js_string option"

text \<open>Greedy repetition: the longest run first, then one character less, down to one.\<close>

fun try_lengths ::
  "nat \<Rightarrow> js_string \<Rightarrow> captures \<Rightarrow> (js_string \<times> captures \<Rightarrow> captures option) \<Rightarrow> captures option" where
  "try_lengths 0 s caps k = None"
| "try_lengths (Suc n) s caps k =
     (case k (drop (Suc n) s, caps) of
        Some r \<Rightarrow> Some r
      | None \<Rightarrow> try_lengths n s caps k)"

primrec matcher ::
  "regex \<Rightarrow> js_string \<times> captures \<Rightarrow> (js_string \<times> captures \<Rightarrow> captures option) \<Rightarrow> captures option" where
  "matcher (Lit l) x k =
     (if starts_with (fst x) l then k (drop (length l) (fst x), snd x) else None)"
| "matcher (Plus cls) x k = try_lengths (length (takeWhile cls (fst x))) (fst x) (snd x) k"
| "matcher (Seq r1 r2) x k = matcher r1 x (\<lambda>y. matcher r2 y k)"
| "matcher (Alt r1 r2) x k =
     (case matcher r1 x k of
        Some r \<Rightarrow> Some r
      | None \<Rightarrow> matcher r2 x k)"
| "matcher (Group n r) x k =
     matcher r x
       (\<lambda>y. k (fst y, (snd y)(n \<mapsto> take (length (fst x) - length (fst y)) (fst x))))"

text \<open>\<open>line.match(regex)\<close> without the global flag: the leftmost match, or \<open>null\<close>.\<close>

fun regex_match :: "regex \<Rightarrow> js_string \<Rightarrow> captures option" where
  "regex_match r [] = matcher r ([], Map.empty) (\<lambda>y. Some (snd y))"
| "regex_match r (c # cs) =
     (case matcher r (c # cs, Map.empty) (\<lambda>y. Some (snd y)) of
        Some caps \<Rightarrow> Some caps
      | None \<Rightarrow> regex_match r cs)"

text \<open>The class \<open>\s\<close> of ECMAScript: white space and line terminators.\<close>

definition is_whitespace :: "16 word \<Rightarrow> bool" where
  "is_whitespace c =
     (c \<in> {0x9, 0xA, 0xB, 0xC, 0xD, 0x20, 0xA0, 0x1680, 0x2028, 0x2029, 0x202F, 0x205F,
            0x3000, 0xFEFF}
      \<or> (0x2000 \<le> c \<and> c \<le> 0x200A))"

text \<open>\<open>/New tag:\s+(@[^/]+\/[^@]+|[^/]+)@([^\s]+)/\<close> and \<open>/New tag:/\<close>.\<close>

definition newTagRegex :: regex where
  "newTagRegex =
     Seq (Lit (js ''New tag:''))
       (Seq (Plus is_whitespace)
          (Seq (Group 1
                  (Alt (Seq (Lit (js ''@''))
                          (Seq (Plus (\<lambda>c. c \<noteq> 0x2F))
                             (Seq (Lit (js ''/'')) (Plus (\<lambda>c. c \<noteq> 0x40)))))
                       (Plus (\<lambda>c. c \<noteq> 0x2F))))
             (Seq (Lit (js ''@'')) (Group 2 (Plus (\<lambda>c. \<not> is_whitespace c))))))"

definition newTagMarker :: regex where
  "newTagMarker = Lit (js ''New tag:'')"

text \<open>\<open>s.split("\n")\<close> (any one-unit separator) and \<open>s.split(/\s+/)\<close>.\<close>

fun split_on :: "16 word \<Rightarrow> js_string \<Rightarrow> js_string list" where
  "split_on d [] = [[]]"
| "split_on d (c # cs) =
     (if c = d then [] # split_on d cs
      else (case split_on d cs of
              l # ls \<Rightarrow> (c # l) # ls
            | [] \<Rightarrow> [[c]]))"

function split_ws :: "js_string \<Rightarrow> js_string list" where
  "split_ws [] = [[]]"
| "split_ws (c # cs) =
     (if is_whitespace c then [] # split_ws (dropWhile is_whitespace cs)
      else (case split_ws cs of
              l # ls \<Rightarrow> (c # l) # ls
            | [] \<Rightarrow> [[c]]))"
  by pat_completeness auto
termination
  by (relation "measure length") (auto simp: length_dropWhile_le less_Suc_eq_le)

section \<open>Publish orchestrator: \<open>runPublish\<close>\<close>

datatype publish_result = Published "(js_string \<times> js_string) list" | NotPublished

text \<open>\<open>new Map(packages.map((x) => [x.packageJson.name, x]))\<close>: a later entry replaces an earlier one.\<close>

definition packagesByName :: "package list \<Rightarrow> js_string \<rightharpoonup> package" where
  "packagesByName packages = map_of (rev (map (\<lambda>x. (pkg_name x, x)) packages))"

definition bug_notice :: js_string where
  "bug_notice = js ''This is probably a bug in the action, please open an issue''"

definition package_not_found :: "js_string \<Rightarrow> js_error" where
  "package_not_found pkgName =
     JsError None (js ''Package '' @ [0x22] @ pkgName @ [0x22] @ js '' not found.'' @ bug_notice)"

text \<open>
  The loop of the multi-package branch over the lines of the output, with
  \<open>releasedPackages\<close> as accumulator. A match without group 1 would make
  \<open>pkgName\<close> \<open>undefined\<close>.
\<close>

fun scan_new_tags ::
  "(js_string \<rightharpoonup> package) \<Rightarrow> js_string list \<Rightarrow> package list \<Rightarrow> js_error + package list" where
  "scan_new_tags byName [] releasedPackages = Inr releasedPackages"
| "scan_new_tags byName (line # lines) releasedPackages =
     (case regex_match newTagRegex line of
        None \<Rightarrow> scan_new_tags byName lines releasedPackages
      | Some match \<Rightarrow>
          (case match 1 of
             None \<Rightarrow> Inl (package_not_found (js ''undefined''))
           | Some pkgName \<Rightarrow>
               (case byName pkgName of
                  None \<Rightarrow> Inl (package_not_found pkgName)
                | Some pkg \<Rightarrow> scan_new_tags byName lines (releasedPackages @ [pkg]))))"

text \<open>The loop of the single-package branch: it leaves at the first line with the marker.\<close>

fun scan_first_tag ::
  "env \<Rightarrow> bool \<Rightarrow> package \<Rightarrow> js_string list \<Rightarrow> package list \<Rightarrow> package list io" where
  "scan_first_tag e createGithubReleases pkg [] releasedPackages = return_io releasedPackages"
| "scan_first_tag e createGithubReleases pkg (line # lines) releasedPackages =
     (case regex_match newTagMarker line of
        Some match \<Rightarrow>
          bind_io
            (if createGithubReleases
             then createRelease e pkg (js ''v'' @ pkg_version pkg)
             else return_io ())
            (\<lambda>_. return_io (releasedPackages @ [pkg]))
      | None \<Rightarrow> scan_first_tag e createGithubReleases pkg lines releasedPackages)"

text \<open>
  Running a script: \<open>script.split(/\s+/)\<close> gives the command and its arguments (the
  split never returns an empty array).
\<close>

definition run_script :: "env \<Rightarrow> js_string \<Rightarrow> js_string io" where
  "run_script e script =
     (case split_ws script of
        command # args \<Rightarrow> perform (Exec command args) (getExecOutput e command args)
      | [] \<Rightarrow> throw_io (JsError None (js ''unreachable'')))"

definition runPublish :: "env \<Rightarrow> js_string \<Rightarrow> bool \<Rightarrow> publish_result io" where
  "runPublish e script createGithubReleases =
     bind_io (run_script e script) (\<lambda>stdout.
     bind_io (perform (Git PushTags) (git e PushTags)) (\<lambda>_.
     bind_io (lift_io (getPackages e)) (\<lambda>(packages, tool).
     bind_io
       (if tool \<noteq> js ''root''
        then
          bind_io
            (lift_io (scan_new_tags (packagesByName packages) (split_on 0xA stdout) []))
            (\<lambda>releasedPackages.
          bind_io
            (if createGithubReleases
             then promise_all
                    (map (\<lambda>pkg. createRelease e pkg (pkg_name pkg @ js ''@'' @ pkg_version pkg))
                       releasedPackages)
             else return_io ())
            (\<lambda>_. return_io releasedPackages))
        else
          (case packages of
             [] \<Rightarrow> throw_io (JsError None (js ''No package found.'' @ bug_notice))
           | pkg # _ \<Rightarrow> scan_first_tag e createGithubReleases pkg (split_on 0xA stdout) []))
       (\<lambda>releasedPackages.
          return_io
            (if releasedPackages \<noteq> []
             then Published (map (\<lambda>pkg. (pkg_name pkg, pkg_version pkg)) releasedPackages)
             else NotPublished)))))"

section \<open>Release orchestrator: \<open>runRelease\<close>\<close>

datatype release_result = Released "(js_string \<times> js_string) list" | NotReleased

text \<open>
  The loop over \<open>releasablePackages\<close>, each package paired with its \<open>tagName\<close>.
  \<open>releasesByTagName\<close> is the plain object built by \<open>Object.fromEntries\<close>; a tag
  name has an \<open>@\<close> in it, so it never names a property inherited from
  \<open>Object.prototype\<close>, and reading it is a lookup among the entries.
\<close>

fun collect_unreleased ::
  "(js_string \<rightharpoonup> gitea_release) \<Rightarrow> (package \<times> js_string) list \<Rightarrow> (package \<times> js_string) list
     \<Rightarrow> (package \<times> js_string) list" where
  "collect_unreleased releasesByTagName [] releasedPackages = releasedPackages"
| "collect_unreleased releasesByTagName ((pkg, tagName) # rest) releasedPackages =
     (case releasesByTagName tagName of
        None \<Rightarrow> collect_unreleased releasesByTagName rest (releasedPackages @ [(pkg, tagName)])
      | Some release \<Rightarrow> collect_unreleased releasesByTagName rest releasedPackages)"

definition releasablePackages :: "package list \<Rightarrow> (package \<times> js_string) list" where
  "releasablePackages packages =
     map (\<lambda>pkg. (pkg, pkg_name pkg @ js ''@'' @ pkg_version pkg))
       (filter (\<lambda>pkg. \<not> pkg_private pkg) packages)"

definition releases_url :: "env \<Rightarrow> js_string" where
  "releases_url e =
     env_text (GITEA_API_URL e) @ js ''/repos/'' @ context_owner e @ js ''/'' @ context_repo e
     @ js ''/releases''"

definition runRelease :: "env \<Rightarrow> js_string \<Rightarrow> bool \<Rightarrow> release_result io" where
  "runRelease e script createGithubReleases =
     bind_io
       (if script \<noteq> [] then bind_io (run_script e script) (\<lambda>_. return_io ())
        else return_io ()) (\<lambda>_.
     bind_io (perform (Git PushTags) (git e PushTags)) (\<lambda>_.
     bind_io (lift_io (getPackages e)) (\<lambda>(packages, tool).
     if tool = js ''root'' \<and> packages = []
     then throw_io (JsError None (js ''No package found.'' @ bug_notice))
     else
       bind_io
         (if releasablePackages packages \<noteq> []
          then
            bind_io
              (if truthy (GITEA_API_URL e)
               then
                 bind_io
                   (perform (GiteaListReleases (releases_url e))
                      (fetch_releases e (releases_url e))) (\<lambda>res.
                 if \<not> res_ok res then throw_io (http_error res (releases_url e))
                 else
                   return_io
                     (collect_unreleased
                        (map_of (rev (map (\<lambda>release. (tag_name release, release)) (res_json res))))
                        (releasablePackages packages) []))
               else return_io [])
              (\<lambda>releasedPackages.
            bind_io
              (if createGithubReleases
               then promise_all
                      (map (\<lambda>(pkg, tagName). createRelease e pkg tagName) releasedPackages)
               else return_io ())
              (\<lambda>_. return_io releasedPackages))
          else return_io [])
         (\<lambda>releasedPackages.
            return_io
              (if releasedPackages \<noteq> []
               then Released
                      (map (\<lambda>(pkg, tagName). (pkg_name pkg, pkg_version pkg)) releasedPackages)
               else NotReleased)))))"

section \<open>Rate-limit handlers of \<open>setupOctokit\<close>\<close>

text \<open>
  Both handlers answer \<open>true\<close> (retry) when \<open>retryCount <= 2\<close> and nothing (falsy)
  otherwise.
\<close>

definition onRateLimit :: "nat \<Rightarrow> bool" where
  "onRateLimit retryCount = (retryCount \<le> 2)"

definition onSecondaryRateLimit :: "nat \<Rightarrow> bool" where
  "onSecondaryRateLimit retryCount = (retryCount \<le> 2)"

text \<open>
  The throttling plugin, an external library, drives the handlers: at a rate-limit
  response it calls the handler with the number of retries already made for this request
  (0 at the first such response) and sends the request again when the handler answers
  \<open>true\<close>; otherwise the error surfaces. \<open>request_with_retries\<close> follows one request
  through the responses it receives and returns how it ended with the number of retries
  made; \<open>Pending\<close> means that the last attempt has no response in the list.
\<close>

datatype backend_response = Completed | RateLimited | SecondaryRateLimited

datatype request_outcome = Succeeded | Surfaced | Pending

fun request_with_retries :: "nat \<Rightarrow> backend_response list \<Rightarrow> request_outcome \<times> nat" where
  "request_with_retries retryCount [] = (Pending, retryCount)"
| "request_with_retries retryCount (Completed # rs) = (Succeeded, retryCount)"
| "request_with_retries retryCount (RateLimited # rs) =
     (if onRateLimit retryCount then request_with_retries (Suc retryCount) rs
      else (Surfaced, retryCount))"
| "request_with_retries retryCount (SecondaryRateLimited # rs) =
     (if onSecondaryRateLimit retryCount then request_with_retries (Suc retryCount) rs
      else (Surfaced, retryCount))"

section \<open>Version orchestrator: \<open>runVersion\<close>\<close>

definition MAX_CHARACTERS_PER_MESSAGE :: int where
  "MAX_CHARACTERS_PER_MESSAGE = 60000"

text \<open>\<open>VersionOptions\<close>: an absent field takes its default.\<close>

record version_options =
  opt_script :: "js_string option"
  opt_prTitle :: "js_string option"
  opt_commitMessage :: "js_string option"
  opt_hasPublishScript :: "bool option"
  opt_prBodyMaxCharacters :: "int option"
  opt_branch :: "js_string option"

text \<open>\<open>s.replace(pattern, replacement)\<close> with a string pattern: the first occurrence only.\<close>

fun replace_first :: "js_string \<Rightarrow> js_string \<Rightarrow> js_string \<Rightarrow> js_string" where
  "replace_first [] pattern replacement = (if pattern = [] then replacement else [])"
| "replace_first (c # cs) pattern replacement =
     (if starts_with (c # cs) pattern then replacement @ drop (length pattern) (c # cs)
      else c # replace_first cs pattern replacement)"

text \<open>
  A started promise: its effects happen at once, its rejection is kept until it is
  awaited (\<open>lift_io\<close> awaits it).
\<close>

definition launch :: "'a io \<Rightarrow> (js_error + 'a) io" where
  "launch m = (\<lambda>log. case m log of (r, log') \<Rightarrow> (Inr r, log'))"

fun all_results :: "(js_error + 'a) list \<Rightarrow> js_error + 'a list" where
  "all_results [] = Inr []"
| "all_results (r # rs) =
     (case r of
        Inl err \<Rightarrow> Inl err
      | Inr x \<Rightarrow> (case all_results rs of Inl err \<Rightarrow> Inl err | Inr xs \<Rightarrow> Inr (x # xs)))"

datatype search_items = GiteaItems "gitea_pull_request list" | OctokitItems "octokit_item list"

fun item_numbers :: "search_items \<Rightarrow> nat list" where
  "item_numbers (GiteaItems prs) = map pr_number prs"
| "item_numbers (OctokitItems items) = map item_number items"

definition issuesAndPullRequests ::
  "env \<Rightarrow> js_string \<Rightarrow> js_string \<Rightarrow> js_string \<Rightarrow> search_items io" where
  "issuesAndPullRequests e repo versionBranch branch =
     (if truthy (GITEA_API_URL e)
      then
        (let url = env_text (GITEA_API_URL e) @ js ''/repos/'' @ repo @ js ''/pulls?state=open''
         in bind_io (perform (GiteaListPulls url) (fetch_pulls e url)) (\<lambda>res.
            if \<not> res_ok res then throw_io (http_error res url)
            else
              return_io
                (GiteaItems
                   (filter
                      (\<lambda>pr. base_repo_full_name pr = repo \<and> head_repo_full_name pr = repo
                            \<and> base_ref pr = branch \<and> head_ref pr = versionBranch)
                      (res_json res)))))
      else
        (let searchQuery = js ''repo:'' @ repo @ js ''+state:open+head:'' @ versionBranch
                           @ js ''+base:'' @ branch @ js ''+is:pull-request''
         in bind_io (perform (OctokitSearch searchQuery) (octokit_search e searchQuery))
              (\<lambda>items. return_io (OctokitItems items))))"

definition pulls_url :: "env \<Rightarrow> js_string" where
  "pulls_url e =
     env_text (GITEA_API_URL e) @ js ''/repos/'' @ context_owner e @ js ''/'' @ context_repo e
     @ js ''/pulls''"

definition createPullRequest ::
  "env \<Rightarrow> js_string \<Rightarrow> js_string \<Rightarrow> js_string \<Rightarrow> js_string \<Rightarrow> nat io" where
  "createPullRequest e base head title body =
     (if truthy (GITEA_API_URL e)
      then
        bind_io
          (perform (GiteaCreatePull (pulls_url e) base head title body)
             (fetch_create_pull e (pulls_url e) base head title body)) (\<lambda>res.
        if \<not> res_ok res then throw_io (http_error res (pulls_url e))
        else return_io (pr_number (res_json res)))
      else
        bind_io
          (perform (OctokitCreatePull base head title body (context_owner e) (context_repo e))
             (octokit_pulls_create e base head title body))
          (\<lambda>newPullRequest. return_io (item_number newPullRequest)))"

definition updatePullRequest :: "env \<Rightarrow> nat \<Rightarrow> js_string \<Rightarrow> js_string \<Rightarrow> unit io" where
  "updatePullRequest e pull_number title body =
     (if truthy (GITEA_API_URL e)
      then
        (let url = pulls_url e @ js ''/'' @ decimal pull_number
         in bind_io
              (perform (GiteaUpdatePull url title body) (fetch_update_pull e url title body))
              (\<lambda>res.
            if \<not> res_ok res then throw_io (http_error res url) else return_io ()))
      else
        perform (OctokitUpdatePull pull_number title body (context_owner e) (context_repo e))
          (octokit_pulls_update e pull_number title body))"

definition requireChangesetsCliPkgJson :: "env \<Rightarrow> js_string io" where
  "requireChangesetsCliPkgJson e =
     catch_io (lift_io (requireChangesetsCliVersion e))
       (\<lambda>err.
          if code err = Some (js ''MODULE_NOT_FOUND'')
          then throw_io (JsError None
                 (js ''Have you forgotten to install `@changesets/cli` in '' @ [0x22] @ cwd e
                  @ [0x22] @ js ''?''))
          else throw_io err)"

definition run_version_tool :: "env \<Rightarrow> js_string option \<Rightarrow> unit io" where
  "run_version_tool e script =
     (if truthy script
      then
        (case split_ws (env_text script) of
           versionCommand # versionArgs \<Rightarrow>
             perform (Exec versionCommand versionArgs) (exec e versionCommand versionArgs)
         | [] \<Rightarrow> throw_io (JsError None (js ''unreachable'')))
      else
        bind_io (requireChangesetsCliPkgJson e) (\<lambda>version.
        bind_io (lift_io (semver_lt e version (js ''2.0.0''))) (\<lambda>older.
        bind_io (lift_io (resolveFrom e (js ''@changesets/cli/bin.js''))) (\<lambda>bin.
        (let cmd = (if older then js ''bump'' else js ''version'')
         in perform (Exec (js ''node'') [bin, cmd]) (exec e (js ''node'') [bin, cmd]))))))"

text \<open>The changelog excerpt of one changed package; reading a field of a falsy entry throws.\<close>

definition changed_package_info_of :: "env \<Rightarrow> package \<Rightarrow> js_error + changed_package_info" where
  "changed_package_info_of e pkg =
     (case readChangelog e (pkg_dir pkg) of
        Inl err \<Rightarrow> Inl err
      | Inr changelogContents \<Rightarrow>
          (case getChangelogEntry e changelogContents (pkg_version pkg) of
             None \<Rightarrow> Inl (JsError None (js ''TypeError''))
           | Some entry \<Rightarrow>
               Inr \<lparr>highestLevel = entry_highestLevel entry, info_private = pkg_private pkg,
                    content = entry_content entry,
                    header = js ''## '' @ pkg_name pkg @ js ''@'' @ pkg_version pkg\<rparr>))"

definition version_branch :: "js_string \<Rightarrow> js_string" where
  "version_branch branch = js ''changeset-release/'' @ branch"

definition base_branch :: "env \<Rightarrow> version_options \<Rightarrow> js_string" where
  "base_branch e opts =
     (case opt_branch opts of
        Some branch \<Rightarrow> branch
      | None \<Rightarrow> replace_first (context_ref e) (js ''refs/heads/'') [])"

definition pre_suffix :: "pre_state option \<Rightarrow> js_string" where
  "pre_suffix preState =
     (case preState of Some pre \<Rightarrow> js '' ('' @ tag pre @ js '')'' | None \<Rightarrow> [])"

definition runVersion :: "env \<Rightarrow> version_options \<Rightarrow> nat io" where
  "runVersion e opts =
     (let prTitle = (case opt_prTitle opts of None \<Rightarrow> js ''Version Packages'' | Some t \<Rightarrow> t);
          commitMessage =
            (case opt_commitMessage opts of None \<Rightarrow> js ''Version Packages'' | Some m \<Rightarrow> m);
          hasPublishScript = (case opt_hasPublishScript opts of None \<Rightarrow> False | Some b \<Rightarrow> b);
          prBodyMaxCharacters =
            (case opt_prBodyMaxCharacters opts of
               None \<Rightarrow> MAX_CHARACTERS_PER_MESSAGE
             | Some n \<Rightarrow> n);
          repo = context_owner e @ js ''/'' @ context_repo e;
          branch = base_branch e opts;
          versionBranch = version_branch branch
      in
      bind_io (lift_io (readChangesetState e)) (\<lambda>preState.
      bind_io (perform (Git (SwitchToMaybeExistingBranch versionBranch))
                 (git e (SwitchToMaybeExistingBranch versionBranch))) (\<lambda>_.
      bind_io (perform (Git (Reset (context_sha e))) (git e (Reset (context_sha e)))) (\<lambda>_.
      bind_io (lift_io (getVersionsByDirectory e)) (\<lambda>versionsByDirectory.
      bind_io (run_version_tool e (opt_script opts)) (\<lambda>_.
      bind_io (launch (issuesAndPullRequests e repo versionBranch branch))
        (\<lambda>searchResultPromise.
      bind_io (lift_io (getChangedPackages e versionsByDirectory)) (\<lambda>changedPackages.
      (let changedPackagesInfoPromises =
             all_results (map (changed_package_info_of e) changedPackages);
           finalPrTitle = prTitle @ pre_suffix preState
       in
       bind_io (lift_io (checkIfClean e)) (\<lambda>clean.
       bind_io
         (if \<not> clean
          then perform (Git (CommitAll (commitMessage @ pre_suffix preState)))
                 (git e (CommitAll (commitMessage @ pre_suffix preState)))
          else return_io ()) (\<lambda>_.
       bind_io (perform (Git (Push versionBranch True)) (git e (Push versionBranch True)))
         (\<lambda>_.
       bind_io (lift_io searchResultPromise) (\<lambda>searchResult.
       bind_io (lift_io changedPackagesInfoPromises) (\<lambda>infos.
       (let changedPackagesInfo = sortThings e infos;
            prBody = getVersionPrBody hasPublishScript preState changedPackagesInfo
                       prBodyMaxCharacters branch
        in case item_numbers searchResult of
             [] \<Rightarrow> createPullRequest e branch versionBranch finalPrTitle prBody
           | number # _ \<Rightarrow>
               bind_io (updatePullRequest e number finalPrTitle prBody)
                 (\<lambda>_. return_io number))))))))))))))))"

section \<open>A concrete environment\<close>

text \<open>
  An environment in which every outside call succeeds with an empty answer, and one
  package; the concrete runs below are variations of it.
\<close>

definition ok_response :: "'a \<Rightarrow> 'a response" where
  "ok_response x = \<lparr>res_ok = True, res_status = 200, res_statusText = js ''OK'', res_json = x\<rparr>"

definition pkg_a :: package where
  "pkg_a = \<lparr>pkg_dir = js ''/work/packages/a'', pkg_name = js ''pkg-a'',
            pkg_version = js ''1.2.3'', pkg_private = False\<rparr>"

definition pkg_b :: package where
  "pkg_b = \<lparr>pkg_dir = js ''/work/packages/b'', pkg_name = js ''@scope/pkg-b'',
            pkg_version = js ''0.0.1'', pkg_private = False\<rparr>"

definition quiet_env :: env where
  "quiet_env =
     \<lparr>GITEA_API_URL = None,
      context_owner = js ''acme'',
      context_repo = js ''widgets'',
      context_ref = js ''refs/heads/main'',
      context_sha = js ''abc123'',
      cwd = js ''/work'',
      readChangelog = (\<lambda>d. Inr (js ''# Changelog'')),
      getChangelogEntry =
        (\<lambda>changelog version. Some \<lparr>entry_content = js ''notes'', entry_highestLevel = 1\<rparr>),
      getExecOutput = (\<lambda>command args. Inr []),
      exec = (\<lambda>command args. Inr ()),
      git = (\<lambda>call. Inr ()),
      checkIfClean = Inr True,
      getPackages = Inr ([], js ''yarn''),
      readChangesetState = Inr None,
      getVersionsByDirectory = Inr [],
      getChangedPackages = (\<lambda>versions. Inr []),
      sortThings = (\<lambda>infos. infos),
      requireChangesetsCliVersion = Inr (js ''2.27.0''),
      semver_lt = (\<lambda>a b. Inr False),
      resolveFrom = (\<lambda>m. Inr (js ''/work/node_modules/'' @ m)),
      fetch_create_release = (\<lambda>url request. Inr (ok_response ())),
      octokit_createRelease = (\<lambda>request. Inr ()),
      fetch_releases = (\<lambda>url. Inr (ok_response [])),
      fetch_pulls = (\<lambda>url. Inr (ok_response [])),
      octokit_search = (\<lambda>q. Inr []),
      fetch_create_pull =
        (\<lambda>url base head title body.
           Inr (ok_response
                  \<lparr>pr_number = 1, base_ref = base, base_repo_full_name = js ''acme/widgets'',
                   head_ref = head, head_repo_full_name = js ''acme/widgets''\<rparr>)),
      octokit_pulls_create = (\<lambda>base head title body. Inr \<lparr>item_number = 1\<rparr>),
      fetch_update_pull =
        (\<lambda>url title body.
           Inr (ok_response
                  \<lparr>pr_number = 1, base_ref = js ''main'',
                   base_repo_full_name = js ''acme/widgets'',
                   head_ref = js ''changeset-release/main'',
                   head_repo_full_name = js ''acme/widgets''\<rparr>)),
      octokit_pulls_update = (\<lambda>pull_number title body. Inr ())\<rparr>"

text \<open>
  The groups that a successful match of a regular expression has always captured, the
  package name that a line announces (group 1 of \<open>newTagRegex\<close>), and the names
  announced by the lines of an output, in the order of the lines.
\<close>

fun always_captured :: "regex \<Rightarrow> nat set" where
  "always_captured (Lit l) = {}"
| "always_captured (Plus cls) = {}"
| "always_captured (Seq r1 r2) = always_captured r1 \<union> always_captured r2"
| "always_captured (Alt r1 r2) = always_captured r1 \<inter> always_captured r2"
| "always_captured (Group n r) = insert n (always_captured r)"

definition announced_name :: "js_string \<Rightarrow> js_string option" where
  "announced_name line =
     (case regex_match newTagRegex line of None \<Rightarrow> None | Some match \<Rightarrow> match 1)"

fun announced_names :: "js_string list \<Rightarrow> js_string list" where
  "announced_names [] = []"
| "announced_names (line # lines) =
     (case announced_name line of
        None \<Rightarrow> announced_names lines
      | Some pkgName \<Rightarrow> pkgName # announced_names lines)"

text \<open>
  A single-package workspace whose publish output has two lines with the marker, and
  the multi-package output of the tag-parsing example.
\<close>

definition root_env :: env where
  "root_env =
     quiet_env
       \<lparr>getPackages := Inr ([pkg_a], js ''root''),
        getExecOutput :=
          (\<lambda>command args.
             Inr (js ''noise\<newline>New tag: v1.0.0 created\<newline>New tag: v2.0.0 created''))\<rparr>"

definition publish_env :: env where
  "publish_env =
     quiet_env
       \<lparr>getPackages := Inr ([pkg_a, pkg_b], js ''yarn''),
        getExecOutput :=
          (\<lambda>command args.
             Inr (js ''New tag: pkg-a@1.2.3\<newline>noise\<newline>New tag: @scope/pkg-b@0.0.1''))\<rparr>"

text \<open>
  The requests that create or update a proposal, among the effects of a run, and the
  request that each backend sends for a creation and for an update.
\<close>

fun is_proposal_write :: "effect \<Rightarrow> bool" where
  "is_proposal_write (GiteaCreatePull url base head title body) = True"
| "is_proposal_write (OctokitCreatePull base head title body owner repo) = True"
| "is_proposal_write (GiteaUpdatePull url title body) = True"
| "is_proposal_write (OctokitUpdatePull pull_number title body owner repo) = True"
| "is_proposal_write eff = False"

definition proposal_writes :: "effect list \<Rightarrow> effect list" where
  "proposal_writes log = filter is_proposal_write log"

definition create_request :: "env \<Rightarrow> js_string \<Rightarrow> js_string \<Rightarrow> js_string \<Rightarrow> js_string \<Rightarrow> effect" where
  "create_request e base head title body =
     (if truthy (GITEA_API_URL e) then GiteaCreatePull (pulls_url e) base head title body
      else OctokitCreatePull base head title body (context_owner e) (context_repo e))"

definition update_request :: "env \<Rightarrow> nat \<Rightarrow> js_string \<Rightarrow> js_string \<Rightarrow> effect" where
  "update_request e pull_number title body =
     (if truthy (GITEA_API_URL e)
      then GiteaUpdatePull (pulls_url e @ js ''/'' @ decimal pull_number) title body
      else OctokitUpdatePull pull_number title body (context_owner e) (context_repo e))"

text \<open>
  Two notions for following a run of \<open>runVersion\<close> step by step: a step that sends no
  proposal write and whose value, when it returns, satisfies \<open>R\<close>; and a remainder of
  the run that either fails without a proposal write or sends exactly the one write that
  the search result calls for.
\<close>

definition quiet_step :: "'a io \<Rightarrow> ('a \<Rightarrow> bool) \<Rightarrow> bool" where
  "quiet_step m R =
     (\<forall>l r l'. m l = (r, l') \<longrightarrow>
        proposal_writes l' = proposal_writes l \<and> (\<forall>x. r = Inr x \<longrightarrow> R x))"

definition reconciled :: "env \<Rightarrow> version_options \<Rightarrow> effect list \<Rightarrow> js_error + nat \<Rightarrow> effect list \<Rightarrow> bool" where
  "reconciled e opts log r log' =
     ((proposal_writes log' = proposal_writes log \<and> (\<exists>err. r = Inl err))
      \<or> (\<exists>items title body.
            fst (issuesAndPullRequests e (context_owner e @ js ''/'' @ context_repo e)
                   (version_branch (base_branch e opts)) (base_branch e opts) []) = Inr items
            \<and> (case item_numbers items of
                  [] \<Rightarrow>
                    proposal_writes log' = proposal_writes log
                      @ [create_request e (base_branch e opts)
                           (version_branch (base_branch e opts)) title body]
                    \<and> r = fst (createPullRequest e (base_branch e opts)
                                 (version_branch (base_branch e opts)) title body [])
                | number # _ \<Rightarrow>
                    proposal_writes log' = proposal_writes log
                      @ [update_request e number title body]
                    \<and> r = (case fst (updatePullRequest e number title body []) of
                             Inl err \<Rightarrow> Inl err
                           | Inr _ \<Rightarrow> Inr number))))"

definition reconciles :: "env \<Rightarrow> version_options \<Rightarrow> nat io \<Rightarrow> bool" where
  "reconciles e opts m = (\<forall>l r l'. m l = (r, l') \<longrightarrow> reconciled e opts l r l')"

text \<open>The options of the action when no input is set, and a second run that finds the proposal of the first.\<close>

definition no_options :: version_options where
  "no_options =
     \<lparr>opt_script = None, opt_prTitle = None, opt_commitMessage = None,
      opt_hasPublishScript = None, opt_prBodyMaxCharacters = None, opt_branch = None\<rparr>"

definition second_run_env :: env where
  "second_run_env = quiet_env\<lparr>octokit_search := (\<lambda>q. Inr [\<lparr>item_number = 1\<rparr>])\<rparr>"

text \<open>The release-creation requests among the effects of a run, in order.\<close>

fun release_request_of :: "effect \<Rightarrow> release_request option" where
  "release_request_of (GiteaCreateRelease url request) = Some request"
| "release_request_of (OctokitCreateRelease request owner repo) = Some request"
| "release_request_of eff = None"

fun release_requests :: "effect list \<Rightarrow> release_request list" where
  "release_requests [] = []"
| "release_requests (eff # log) =
     (case release_request_of eff of
        None \<Rightarrow> release_requests log
      | Some request \<Rightarrow> request # release_requests log)"

text \<open>
  The same environment on the alternate backend: three packages, one of them private; a
  release exists for the tag of the first; three proposals are open, one for the version
  branch, one from a fork and one against another base.
\<close>

definition pkg_c :: package where
  "pkg_c = \<lparr>pkg_dir = js ''/work/packages/c'', pkg_name = js ''pkg-c'',
            pkg_version = js ''3.0.0'', pkg_private = True\<rparr>"

definition pr_release :: gitea_pull_request where
  "pr_release =
     \<lparr>pr_number = 7, base_ref = js ''main'', base_repo_full_name = js ''acme/widgets'',
      head_ref = js ''changeset-release/main'', head_repo_full_name = js ''acme/widgets''\<rparr>"

definition pr_fork :: gitea_pull_request where
  "pr_fork =
     \<lparr>pr_number = 8, base_ref = js ''main'', base_repo_full_name = js ''acme/widgets'',
      head_ref = js ''changeset-release/main'', head_repo_full_name = js ''mallory/widgets''\<rparr>"

definition pr_other_base :: gitea_pull_request where
  "pr_other_base =
     \<lparr>pr_number = 9, base_ref = js ''next'', base_repo_full_name = js ''acme/widgets'',
      head_ref = js ''changeset-release/main'', head_repo_full_name = js ''acme/widgets''\<rparr>"

definition gitea_env :: env where
  "gitea_env =
     quiet_env
       \<lparr>GITEA_API_URL := Some (js ''https://git.example/api/v1''),
        getPackages := Inr ([pkg_a, pkg_b, pkg_c], js ''yarn''),
        fetch_releases := (\<lambda>url. Inr (ok_response [\<lparr>tag_name = js ''pkg-a@1.2.3''\<rparr>])),
        fetch_pulls := (\<lambda>url. Inr (ok_response [pr_release, pr_fork, pr_other_base]))\<rparr>"

section \<open>Properties of the proposal body composer\<close>

lemma length_join:
  "xs \<noteq> [] \<Longrightarrow>
   int (length (join s xs)) = (\<Sum>x\<leftarrow>xs. int (length x)) + (int (length xs) - 1) * int (length s)"
  by (induction s xs rule: join.induct) (simp_all add: algebra_simps)

lemma sum_blocks:
  "sum_list (map ((\<lambda>x. int (length x)) \<circ> (\<lambda>info. header info @ a # c # content info)) infos) =
   sum_list (map ((\<lambda>x. int (length x)) \<circ> (\<lambda>info. header info @ [a, c])) infos)
   + (\<Sum>i\<leftarrow>infos. int (length (content i)))"
  by (induction infos) simp_all

lemma length_contents_omitted_message:
  "int (length (contents_omitted_message p st infos b)) =
   int (length (raw_message p st infos b)) + int (length contents_omitted_notice) + 1
   - (\<Sum>i\<leftarrow>infos. int (length (content i)))"
  unfolding contents_omitted_message_def raw_message_def
  by (simp add: length_join sum_blocks js_def algebra_simps)

lemma length_contents_omitted_notice: "length contents_omitted_notice = 120"
  by (simp add: contents_omitted_notice_def js_def)

lemma length_all_omitted_main: "length (all_omitted_message True None (js ''main'')) = 447"
  by (simp add: all_omitted_message_def messageHeader_def messagePrestate_def
      messageReleasesHeading_def all_omitted_notice_def js_def)

lemma length_raw_main: "length (raw_message True None [] (js ''main'')) = 344"
  by (simp add: raw_message_def messageHeader_def messagePrestate_def
      messageReleasesHeading_def js_def)





text \<open>
  C4: when the second check fires, the body returned is the fixed text of header,
  pre-release block, heading and all-omitted notice, which has no changed package in it
  (\<open>all_omitted_message\<close> does not take the list) and is returned whatever its length;
  and whenever that fixed text fits the limit, so does the body returned.
\<close>

theorem step2_output:
  "(int (length (after_first_check p st infos m b)) > m \<longrightarrow>
      getVersionPrBody p st infos m b = all_omitted_message p st b)
   \<and> (int (length (all_omitted_message p st b)) \<le> m \<longrightarrow>
      int (length (getVersionPrBody p st infos m b)) \<le> m)
   \<and> all_omitted_message p st b =
       join (js ''\<newline>'')
         [messageHeader p b, messagePrestate st b, messageReleasesHeading, all_omitted_notice]"
  by (simp add: getVersionPrBody_def Let_def all_omitted_message_def)

theorem step2_output_witness:
  "int (length (after_first_check True None
           [\<lparr>highestLevel = 1, info_private = False, content = [],
             header = replicate 200 0x61\<rparr>] 447 (js ''main''))) > 447
   \<and> getVersionPrBody True None
         [\<lparr>highestLevel = 1, info_private = False, content = [],
           header = replicate 200 0x61\<rparr>] 447 (js ''main'')
       = all_omitted_message True None (js ''main'')
   \<and> int (length (all_omitted_message True None (js ''main''))) \<le> 447
   \<and> int (length (getVersionPrBody True None
           [\<lparr>highestLevel = 1, info_private = False, content = [],
             header = replicate 200 0x61\<rparr>] 447 (js ''main''))) \<le> 447"
proof -
  let ?infos = "[\<lparr>highestLevel = 1, info_private = False, content = [],
                  header = replicate 200 (0x61 :: 16 word)\<rparr>]"
  have raw: "length (raw_message True None ?infos (js ''main'')) = 547"
    by (simp add: raw_message_def messageHeader_def messagePrestate_def
        messageReleasesHeading_def js_def)
  have "int (length (contents_omitted_message True None ?infos (js ''main''))) = 668"
    using length_contents_omitted_message [of True None ?infos "js ''main''"] raw
    by (simp add: length_contents_omitted_notice)
  then have over: "int (length (after_first_check True None ?infos 447 (js ''main''))) > 447"
    by (simp add: after_first_check_def Let_def raw)
  show ?thesis
    using step2_output [where p = True and st = None and infos = ?infos and m = 447
        and b = "js ''main''"] over length_all_omitted_main
    by simp
qed

section \<open>Properties of the rate-limit handlers\<close>

text \<open>
  C2, as the spec states it, fails: at the third consecutive rate-limit response the
  handler is called with \<open>retryCount = 2\<close> and answers \<open>true\<close>, so the request is
  sent a fourth time (three retries made) instead of failing after two retries.
\<close>

theorem third_rate_limit_retried_counterexample:
  "onRateLimit 2
   \<and> request_with_retries 0 [RateLimited, RateLimited, RateLimited] = (Pending, 3)
   \<and> request_with_retries 0 [RateLimited, RateLimited, RateLimited] \<noteq> (Surfaced, 2)"
  by (simp add: onRateLimit_def)

text \<open>
  C2, amended: both handlers approve a retry exactly when fewer than three retries were
  made; four consecutive rate-limit responses give exactly three retries and then the
  failure, and a request that completes after three rate-limit responses succeeds.
\<close>

theorem rate_limit_three_retries:
  "onRateLimit n = (n < 3)
   \<and> onSecondaryRateLimit n = (n < 3)
   \<and> request_with_retries 0 (RateLimited # RateLimited # RateLimited # RateLimited # rs)
       = (Surfaced, 3)
   \<and> request_with_retries 0
         (SecondaryRateLimited # SecondaryRateLimited # SecondaryRateLimited
          # SecondaryRateLimited # rs) = (Surfaced, 3)
   \<and> request_with_retries 0 (RateLimited # RateLimited # RateLimited # Completed # rs)
       = (Succeeded, 3)"
  by (auto simp: onRateLimit_def onSecondaryRateLimit_def)

section \<open>Properties of the release creator\<close>

text \<open>
  C1 at a failing input: the changelog of the package is read, \<open>getChangelogEntry\<close>
  finds no entry for version 1.2.3, the error thrown for it has no \<open>code\<close>, and the
  handler swallows it: \<open>createRelease\<close> returns normally, without any request. For
  comparison, a missing file (\<open>ENOENT\<close>) is swallowed as intended, and a read error
  with another code is thrown again.
\<close>

theorem missing_entry_swallowed:
  "createRelease (quiet_env\<lparr>getChangelogEntry := (\<lambda>changelog version. None)\<rparr>)
     pkg_a (js ''pkg-a@1.2.3'') [] = (Inr (), [])
   \<and> createRelease
         (quiet_env\<lparr>readChangelog :=
            (\<lambda>d. Inl (JsError (Some (js ''ENOENT'')) (js ''no such file'')))\<rparr>)
         pkg_a (js ''pkg-a@1.2.3'') [] = (Inr (), [])
   \<and> createRelease
         (quiet_env\<lparr>readChangelog :=
            (\<lambda>d. Inl (JsError (Some (js ''EACCES'')) (js ''permission denied'')))\<rparr>)
         pkg_a (js ''pkg-a@1.2.3'') []
       = (Inl (JsError (Some (js ''EACCES'')) (js ''permission denied'')), [])"
  by (simp add: createRelease_def catch_io_def bind_io_def lift_io_def throw_io_def
      return_io_def quiet_env_def) (simp add: js_def)

section \<open>Properties of the release orchestrator\<close>

lemma release_requests_append [simp]:
  "release_requests (xs @ ys) = release_requests xs @ release_requests ys"
  by (induction xs) (auto split: option.splits)

lemma createRelease_effects:
  assumes "createRelease e pkg tagName log = (r, log')"
  shows "\<exists>new. log' = log @ new \<and> (\<forall>request \<in> set (release_requests new). rel_tag_name request = tagName)"
  using assms
  by (auto simp: createRelease_def catch_io_def bind_io_def lift_io_def throw_io_def
      return_io_def perform_def Let_def split: sum.splits option.splits if_splits prod.splits)

lemma promise_all_effects:
  assumes "promise_all (map (\<lambda>(pkg, tagName). createRelease e pkg tagName) xs) log = (r, log')"
  shows "\<exists>new. log' = log @ new \<and> (\<forall>request \<in> set (release_requests new). rel_tag_name request \<in> snd ` set xs)"
  using assms
proof (induction xs arbitrary: log r log')
  case Nil
  then show ?case by (simp add: return_io_def)
next
  case (Cons x xs)
  obtain pkg tagName where x: "x = (pkg, tagName)" by (cases x)
  obtain r1 l1 where one: "createRelease e pkg tagName log = (r1, l1)" by force
  obtain r2 l2 where rest: "promise_all (map (\<lambda>(pkg, tagName). createRelease e pkg tagName) xs) l1 = (r2, l2)"
    by force
  from Cons.prems x one rest have "log' = l2"
    by (auto split: sum.splits)
  moreover from createRelease_effects [OF one] obtain n1 where
    n1: "l1 = log @ n1" "\<forall>request \<in> set (release_requests n1). rel_tag_name request = tagName" by blast
  moreover from Cons.IH [OF rest] obtain n2 where
    n2: "l2 = l1 @ n2" "\<forall>request \<in> set (release_requests n2). rel_tag_name request \<in> snd ` set xs" by blast
  ultimately show ?case using x
    by (intro exI [of _ "n1 @ n2"]) auto
qed

lemma collect_unreleased_eq:
  "collect_unreleased m xs acc = acc @ filter (\<lambda>(pkg, tagName). m tagName = None) xs"
  by (induction m xs acc rule: collect_unreleased.induct) (auto split: option.splits)

lemma releases_by_tag_None:
  "map_of (rev (map (\<lambda>release. (tag_name release, release)) rs)) t = None \<longleftrightarrow> t \<notin> tag_name ` set rs"
  by (simp add: map_of_eq_None_iff image_image)


lemma bind_io_cases:
  assumes "bind_io m f log = (r, log')"
  obtains (throws) err where "m log = (Inl err, log')" "r = Inl err"
  | (returns) x l where "m log = (Inr x, l)" "f x l = (r, log')"
  using assms by (auto simp: bind_io_def split: prod.splits sum.splits)

lemma script_step_effects:
  assumes "(if script \<noteq> [] then bind_io (run_script e script) (\<lambda>_. return_io ()) else return_io ()) log = (r, l)"
  shows "release_requests l = release_requests log \<and> (\<exists>new. l = log @ new \<and> release_requests new = [])"
  using assms
  by (auto simp: run_script_def bind_io_def return_io_def perform_def throw_io_def
      split: if_splits list.splits sum.splits prod.splits)

lemma push_tags_effects:
  assumes "perform (Git PushTags) a log = (r, l)"
  shows "l = log @ [Git PushTags]"
  using assms by (auto simp: perform_def)

text \<open>
  C10: on the primary backend (no alternate base URL configured) a run of
  \<open>runRelease\<close> never reports a released package and issues no release-creation
  request, whatever the packages and whether or not release creation is enabled; when
  the script, the tag push and the package enumeration succeed, it returns
  \<open>{released: false}\<close>.
\<close>

theorem primary_backend_never_released:
  assumes primary: "\<not> truthy (GITEA_API_URL e)"
    and run: "runRelease e script createGithubReleases log = (r, log')"
  shows "(\<forall>released. r \<noteq> Inr (Released released))
       \<and> release_requests log' = release_requests log
       \<and> ((script = [] \<or> (\<exists>command args out. split_ws script = command # args
                \<and> getExecOutput e command args = Inr out))
           \<and> git e PushTags = Inr ()
           \<and> (\<exists>packages tool. getPackages e = Inr (packages, tool)
                \<and> \<not> (tool = js ''root'' \<and> packages = []))
          \<longrightarrow> r = Inr NotReleased)"
  using run primary
  unfolding runRelease_def
  apply (elim bind_io_cases)
  apply (auto simp: run_script_def bind_io_def return_io_def perform_def throw_io_def lift_io_def
      split: if_splits list.splits sum.splits prod.splits)
  done

theorem primary_backend_never_released_witness:
  "\<not> truthy (GITEA_API_URL (quiet_env\<lparr>getPackages := Inr ([pkg_a], js ''yarn'')\<rparr>))
   \<and> runRelease (quiet_env\<lparr>getPackages := Inr ([pkg_a], js ''yarn'')\<rparr>)
         (js ''npm run release'') True []
       = (Inr NotReleased, [Exec (js ''npm'') [js ''run'', js ''release''], Git PushTags])
   \<and> releasablePackages [pkg_a] \<noteq> []
   \<and> release_requests [Exec (js ''npm'') [js ''run'', js ''release''], Git PushTags] = []"
proof -
  let ?e = "quiet_env\<lparr>getPackages := Inr ([pkg_a], js ''yarn'')\<rparr>"
  have h1: "\<not> truthy (GITEA_API_URL ?e)"
    by (simp add: quiet_env_def truthy_def)
  have split: "split_ws (js ''npm run release'') = [js ''npm'', js ''run'', js ''release'']"
    by (simp add: js_def is_whitespace_def)
  have h2: "runRelease ?e (js ''npm run release'') True []
       = (Inr NotReleased, [Exec (js ''npm'') [js ''run'', js ''release''], Git PushTags])"
    by (simp add: runRelease_def run_script_def split bind_io_def perform_def return_io_def
        lift_io_def releasablePackages_def pkg_a_def quiet_env_def truthy_def)
       (simp add: js_def)
  have h3: "releasablePackages [pkg_a] \<noteq> []"
    by (simp add: releasablePackages_def pkg_a_def)
  from primary_backend_never_released [OF h1 h2]
  have "release_requests [Exec (js ''npm'') [js ''run'', js ''release''], Git PushTags] = []"
    by simp
  with h1 h2 h3 show ?thesis by blast
qed

lemma runRelease_alternate:
  assumes gitea: "truthy (GITEA_API_URL e)"
    and pkgs: "getPackages e = Inr (packages, tool)"
    and fetch: "fetch_releases e (releases_url e) = Inr res"
    and run: "runRelease e script createGithubReleases log = (r, log')"
  shows "\<exists>mid new.
           log' = log @ mid @ new \<and> release_requests mid = []
           \<and> (\<forall>request \<in> set (release_requests new).
                 rel_tag_name request
                   \<in> snd ` set (filter (\<lambda>(pkg, tagName). tagName \<notin> tag_name ` set (res_json res))
                                 (releasablePackages packages)))
           \<and> (\<forall>result. r = Inr result \<longrightarrow>
                 result =
                   (let unreleased =
                          filter (\<lambda>(pkg, tagName). tagName \<notin> tag_name ` set (res_json res))
                            (releasablePackages packages)
                    in if unreleased = [] then NotReleased
                       else Released (map (\<lambda>(pkg, tagName). (pkg_name pkg, pkg_version pkg)) unreleased)))"
proof -
  let ?un = "filter (\<lambda>(pkg, tagName). tagName \<notin> tag_name ` set (res_json res))
               (releasablePackages packages)"
  have collect: "collect_unreleased
          (map_of (rev (map (\<lambda>release. (tag_name release, release)) (res_json res))))
          (releasablePackages packages) [] = ?un"
    by (simp add: collect_unreleased_eq releases_by_tag_None)
  from run show ?thesis
    unfolding runRelease_def
  proof (cases rule: bind_io_cases)
    case (throws err)
    from script_step_effects [OF throws(1)] obtain m1 where
      "log' = log @ m1" "release_requests m1 = []" by blast
    with throws show ?thesis
      by (intro exI [of _ m1] exI [of _ "[]"]) simp
  next
    case (returns x l)
    from script_step_effects [OF returns(1)] obtain m1 where
      m1: "l = log @ m1" "release_requests m1 = []" by blast
    from returns(2) show ?thesis
    proof (cases rule: bind_io_cases)
      case (throws err)
      then have "log' = l @ [Git PushTags]" by (auto simp: perform_def)
      with m1 throws show ?thesis
        by (intro exI [of _ "m1 @ [Git PushTags]"] exI [of _ "[]"]) simp
    next
      case (returns y l2)
      then have l2: "l2 = l @ [Git PushTags]" by (auto simp: perform_def)
      show ?thesis
      proof (cases "tool = js ''root'' \<and> packages = []")
        case True
        with returns(2) pkgs have "log' = l2" "\<exists>err. r = Inl err"
          by (auto simp: bind_io_def lift_io_def throw_io_def)
        with m1 l2 show ?thesis
          by (intro exI [of _ "m1 @ [Git PushTags]"] exI [of _ "[]"]) auto
      next
        case False
        show ?thesis
        proof (cases "releasablePackages packages = []")
          case True
          with returns(2) pkgs False have "log' = l2" "r = Inr NotReleased"
            by (auto simp: bind_io_def lift_io_def throw_io_def return_io_def)
          with m1 l2 True show ?thesis
            by (intro exI [of _ "m1 @ [Git PushTags]"] exI [of _ "[]"]) simp
        next
          case nonempty: False
          show ?thesis
          proof (cases "res_ok res")
            case False
            with returns(2) pkgs \<open>\<not> (tool = js ''root'' \<and> packages = [])\<close> nonempty gitea fetch
            have "log' = l2 @ [GiteaListReleases (releases_url e)]" "\<exists>err. r = Inl err"
              by (auto simp: bind_io_def lift_io_def throw_io_def return_io_def perform_def)
            with m1 l2 show ?thesis
              by (intro exI [of _ "m1 @ [Git PushTags, GiteaListReleases (releases_url e)]"]
                  exI [of _ "[]"]) auto
          next
            case True
            let ?l3 = "l2 @ [GiteaListReleases (releases_url e)]"
            let ?batch = "if createGithubReleases
                          then promise_all (map (\<lambda>(pkg, tagName). createRelease e pkg tagName) ?un)
                          else return_io ()"
            obtain rb lb where batch: "?batch ?l3 = (rb, lb)" by force
            have fin: "log' = lb"
              "r = (case rb of Inl err \<Rightarrow> Inl err
                    | Inr _ \<Rightarrow> Inr (if ?un \<noteq> [] then Released (map (\<lambda>(pkg, tagName). (pkg_name pkg, pkg_version pkg)) ?un) else NotReleased))"
              using returns(2) pkgs \<open>\<not> (tool = js ''root'' \<and> packages = [])\<close> nonempty gitea fetch
                True batch collect
              by (auto simp: bind_io_def lift_io_def throw_io_def return_io_def perform_def
                  split: sum.splits)
            have "\<exists>new. lb = ?l3 @ new \<and> (\<forall>request \<in> set (release_requests new).
                    rel_tag_name request \<in> snd ` set ?un)"
            proof (cases createGithubReleases)
              case True
              with batch promise_all_effects [of e ?un ?l3 rb lb] show ?thesis by simp
            next
              case False
              with batch show ?thesis by (simp add: return_io_def)
            qed
            then obtain new where new: "lb = ?l3 @ new"
              "\<forall>request \<in> set (release_requests new). rel_tag_name request \<in> snd ` set ?un"
              by blast
            show ?thesis
              using m1 l2 new fin
              by (intro exI [of _ "m1 @ [Git PushTags, GiteaListReleases (releases_url e)]"]
                  exI [of _ new]) (auto simp: Let_def split: sum.splits)
          qed
        qed
      qed
    qed
  qed
qed

text \<open>
  C9: on the alternate backend, every release-creation request of a run is for the tag
  \<open>name@version\<close> of a non-private package, and that tag is not the tag of any
  release that \<open>listReleases\<close> returned; the packages reported are the non-private
  ones whose tag has no release, in the order of the package list.
\<close>

theorem alternate_backend_skips_existing_tags:
  assumes gitea: "truthy (GITEA_API_URL e)"
    and pkgs: "getPackages e = Inr (packages, tool)"
    and fetch: "fetch_releases e (releases_url e) = Inr res"
    and run: "runRelease e script createGithubReleases log = (r, log')"
  shows "(\<exists>new. release_requests log' = release_requests log @ new
            \<and> (\<forall>request \<in> set new.
                  rel_tag_name request \<notin> tag_name ` set (res_json res)
                  \<and> (\<exists>pkg \<in> set packages. \<not> pkg_private pkg
                        \<and> rel_tag_name request = pkg_name pkg @ js ''@'' @ pkg_version pkg)))
       \<and> (\<forall>result. r = Inr result \<longrightarrow>
             result =
               (let unreleased =
                      filter (\<lambda>pkg. \<not> pkg_private pkg
                                \<and> pkg_name pkg @ js ''@'' @ pkg_version pkg
                                    \<notin> tag_name ` set (res_json res)) packages
                in if unreleased = [] then NotReleased
                   else Released (map (\<lambda>pkg. (pkg_name pkg, pkg_version pkg)) unreleased)))"
proof -
  let ?un = "filter (\<lambda>(pkg, tagName). tagName \<notin> tag_name ` set (res_json res))
               (releasablePackages packages)"
  let ?keep = "filter (\<lambda>pkg. \<not> pkg_private pkg
                        \<and> pkg_name pkg @ js ''@'' @ pkg_version pkg
                            \<notin> tag_name ` set (res_json res)) packages"
  have un: "?un = map (\<lambda>pkg. (pkg, pkg_name pkg @ js ''@'' @ pkg_version pkg)) ?keep"
    by (induction packages) (auto simp: releasablePackages_def)
  from runRelease_alternate [OF gitea pkgs fetch run] obtain mid new where
    parts: "log' = log @ mid @ new" "release_requests mid = []"
      "\<forall>request \<in> set (release_requests new). rel_tag_name request \<in> snd ` set ?un"
      "\<forall>result. r = Inr result \<longrightarrow>
         result = (let unreleased = ?un
                   in if unreleased = [] then NotReleased
                      else Released (map (\<lambda>(pkg, tagName). (pkg_name pkg, pkg_version pkg)) unreleased))"
    by blast
  have tags: "snd ` set ?un = (\<lambda>pkg. pkg_name pkg @ js ''@'' @ pkg_version pkg) ` set ?keep"
    unfolding un by (simp add: image_image)
  have first: "\<exists>new. release_requests log' = release_requests log @ new
            \<and> (\<forall>request \<in> set new.
                  rel_tag_name request \<notin> tag_name ` set (res_json res)
                  \<and> (\<exists>pkg \<in> set packages. \<not> pkg_private pkg
                        \<and> rel_tag_name request = pkg_name pkg @ js ''@'' @ pkg_version pkg))"
  proof (intro exI [of _ "release_requests new"] conjI ballI)
    show "release_requests log' = release_requests log @ release_requests new"
      using parts(1,2) by simp
  next
    fix request
    assume "request \<in> set (release_requests new)"
    with parts(3) have "rel_tag_name request \<in> snd ` set ?un" by blast
    then obtain pkg where pkg: "pkg \<in> set ?keep"
      "rel_tag_name request = pkg_name pkg @ js ''@'' @ pkg_version pkg"
      unfolding tags by blast
    from pkg show "rel_tag_name request \<notin> tag_name ` set (res_json res)" by simp
    from pkg show "\<exists>pkg \<in> set packages. \<not> pkg_private pkg
        \<and> rel_tag_name request = pkg_name pkg @ js ''@'' @ pkg_version pkg"
      by (intro bexI [of _ pkg]) simp_all
  qed
  have second: "\<forall>result. r = Inr result \<longrightarrow>
             result = (let unreleased = ?keep
                in if unreleased = [] then NotReleased
                   else Released (map (\<lambda>pkg. (pkg_name pkg, pkg_version pkg)) unreleased))"
  proof -
    have mm: "map (\<lambda>(pkg, tagName). (pkg_name pkg, pkg_version pkg))
                (map (\<lambda>pkg. (pkg, pkg_name pkg @ js ''@'' @ pkg_version pkg)) xs)
              = map (\<lambda>pkg. (pkg_name pkg, pkg_version pkg)) xs" for xs :: "package list"
      by (induction xs) simp_all
    have e1: "(?un = []) = (?keep = [])"
      unfolding un by simp
    have e2: "map (\<lambda>(pkg, tagName). (pkg_name pkg, pkg_version pkg)) ?un
              = map (\<lambda>pkg. (pkg_name pkg, pkg_version pkg)) ?keep"
      unfolding un by (rule mm)
    show ?thesis
      using parts(4) unfolding Let_def e1 e2 .
  qed
  from first second show ?thesis by blast
qed

theorem alternate_backend_skips_existing_tags_witness:
  "truthy (GITEA_API_URL gitea_env)
   \<and> getPackages gitea_env = Inr ([pkg_a, pkg_b, pkg_c], js ''yarn'')
   \<and> fetch_releases gitea_env (releases_url gitea_env)
       = Inr (ok_response [\<lparr>tag_name = js ''pkg-a@1.2.3''\<rparr>])
   \<and> runRelease gitea_env [] True []
       = (Inr (Released [(js ''@scope/pkg-b'', js ''0.0.1'')]),
          [Git PushTags,
           GiteaListReleases (js ''https://git.example/api/v1/repos/acme/widgets/releases''),
           GiteaCreateRelease (js ''https://git.example/api/v1/repos/acme/widgets/releases'')
             \<lparr>rel_name = js ''@scope/pkg-b@0.0.1'', rel_tag_name = js ''@scope/pkg-b@0.0.1'',
              rel_body = js ''notes'', rel_prerelease = False\<rparr>])
   \<and> js ''@scope/pkg-b@0.0.1'' \<notin> tag_name ` set [\<lparr>tag_name = js ''pkg-a@1.2.3''\<rparr>]"
proof -
  have h1: "truthy (GITEA_API_URL gitea_env)"
    by (simp add: gitea_env_def quiet_env_def truthy_def js_def)
  have h2: "getPackages gitea_env = Inr ([pkg_a, pkg_b, pkg_c], js ''yarn'')"
    by (simp add: gitea_env_def quiet_env_def)
  have h3: "fetch_releases gitea_env (releases_url gitea_env)
       = Inr (ok_response [\<lparr>tag_name = js ''pkg-a@1.2.3''\<rparr>])"
    by (simp add: gitea_env_def quiet_env_def)
  have url: "releases_url gitea_env = js ''https://git.example/api/v1/repos/acme/widgets/releases''"
    by (simp add: releases_url_def gitea_env_def quiet_env_def env_text_def js_def)
  have rel: "releasablePackages [pkg_a, pkg_b, pkg_c]
       = [(pkg_a, js ''pkg-a@1.2.3''), (pkg_b, js ''@scope/pkg-b@0.0.1'')]"
    by (simp add: releasablePackages_def pkg_a_def pkg_b_def pkg_c_def js_def)
  have create: "createRelease gitea_env pkg_b (js ''@scope/pkg-b@0.0.1'') log
       = (Inr (), log @ [GiteaCreateRelease (js ''https://git.example/api/v1/repos/acme/widgets/releases'')
             \<lparr>rel_name = js ''@scope/pkg-b@0.0.1'', rel_tag_name = js ''@scope/pkg-b@0.0.1'',
              rel_body = js ''notes'', rel_prerelease = False\<rparr>])" for log
    by (simp add: createRelease_def catch_io_def bind_io_def lift_io_def perform_def
        return_io_def Let_def gitea_env_def quiet_env_def truthy_def env_text_def
        ok_response_def pkg_b_def)
       (simp add: js_def)
  have h4: "runRelease gitea_env [] True []
       = (Inr (Released [(js ''@scope/pkg-b'', js ''0.0.1'')]),
          [Git PushTags,
           GiteaListReleases (js ''https://git.example/api/v1/repos/acme/widgets/releases''),
           GiteaCreateRelease (js ''https://git.example/api/v1/repos/acme/widgets/releases'')
             \<lparr>rel_name = js ''@scope/pkg-b@0.0.1'', rel_tag_name = js ''@scope/pkg-b@0.0.1'',
              rel_body = js ''notes'', rel_prerelease = False\<rparr>])"
  proof -
    have g: "git gitea_env PushTags = Inr ()"
      by (simp add: gitea_env_def quiet_env_def)
    have f: "fetch_releases gitea_env u = Inr (ok_response [\<lparr>tag_name = js ''pkg-a@1.2.3''\<rparr>])" for u
      by (simp add: gitea_env_def quiet_env_def)
    have yarn: "js ''yarn'' \<noteq> js ''root''"
      by (simp add: js_def)
    have collect: "collect_unreleased
        (map_of (rev (map (\<lambda>release. (tag_name release, release)) [\<lparr>tag_name = js ''pkg-a@1.2.3''\<rparr>])))
        [(pkg_a, js ''pkg-a@1.2.3''), (pkg_b, js ''@scope/pkg-b@0.0.1'')] []
        = [(pkg_b, js ''@scope/pkg-b@0.0.1'')]"
      by (simp add: js_def)
    have nb: "pkg_name pkg_b = js ''@scope/pkg-b''" "pkg_version pkg_b = js ''0.0.1''"
      by (simp_all add: pkg_b_def)
    have neq: "js ''@scope/pkg-b@0.0.1'' \<noteq> js ''pkg-a@1.2.3''"
      by (simp add: js_def)
    show ?thesis
      unfolding runRelease_def
      by (simp add: h1 h2 g f yarn rel url collect neq nb create bind_io_def perform_def
          return_io_def lift_io_def ok_response_def)
  qed
  from alternate_backend_skips_existing_tags [OF h1 h2 h3 h4]
  have "js ''@scope/pkg-b@0.0.1'' \<notin> tag_name ` set [\<lparr>tag_name = js ''pkg-a@1.2.3''\<rparr>]"
    by (simp add: ok_response_def)
  with h1 h2 h3 h4 show ?thesis by blast
qed

section \<open>Properties of the proposal search\<close>

text \<open>
  C8: on the alternate backend the search requests all open proposals of the repository
  and returns, in the order received, exactly those whose base ref is the requested
  base, whose head ref is the requested head, and whose base and head repositories both
  have the full name of the repository.
\<close>

theorem alternate_search_filters:
  assumes gitea: "truthy (GITEA_API_URL e)"
    and fetch: "fetch_pulls e (env_text (GITEA_API_URL e) @ js ''/repos/'' @ repo
                  @ js ''/pulls?state=open'') = Inr res"
    and ok: "res_ok res"
  shows "issuesAndPullRequests e repo versionBranch branch log =
           (Inr (GiteaItems
                   (filter (\<lambda>pr. base_ref pr = branch \<and> head_ref pr = versionBranch
                                \<and> base_repo_full_name pr = repo \<and> head_repo_full_name pr = repo)
                      (res_json res))),
            log @ [GiteaListPulls (env_text (GITEA_API_URL e) @ js ''/repos/'' @ repo
                     @ js ''/pulls?state=open'')])"
  using assms
  by (simp add: issuesAndPullRequests_def Let_def bind_io_def perform_def return_io_def
      conj_ac cong: filter_cong)

theorem alternate_search_filters_witness:
  "truthy (GITEA_API_URL gitea_env)
   \<and> fetch_pulls gitea_env
         (env_text (GITEA_API_URL gitea_env) @ js ''/repos/'' @ js ''acme/widgets''
          @ js ''/pulls?state=open'')
       = Inr (ok_response [pr_release, pr_fork, pr_other_base])
   \<and> res_ok (ok_response [pr_release, pr_fork, pr_other_base])
   \<and> issuesAndPullRequests gitea_env (js ''acme/widgets'') (js ''changeset-release/main'')
         (js ''main'') []
       = (Inr (GiteaItems [pr_release]),
          [GiteaListPulls (js ''https://git.example/api/v1/repos/acme/widgets/pulls?state=open'')])"
proof -
  have h1: "truthy (GITEA_API_URL gitea_env)"
    by (simp add: gitea_env_def quiet_env_def truthy_def js_def)
  have h2: "fetch_pulls gitea_env
         (env_text (GITEA_API_URL gitea_env) @ js ''/repos/'' @ js ''acme/widgets''
          @ js ''/pulls?state=open'')
       = Inr (ok_response [pr_release, pr_fork, pr_other_base])"
    by (simp add: gitea_env_def quiet_env_def)
  have h3: "res_ok (ok_response [pr_release, pr_fork, pr_other_base])"
    by (simp add: ok_response_def)
  have url: "env_text (GITEA_API_URL gitea_env) @ js ''/repos/'' @ js ''acme/widgets''
          @ js ''/pulls?state=open''
        = js ''https://git.example/api/v1/repos/acme/widgets/pulls?state=open''"
    by (simp add: gitea_env_def quiet_env_def env_text_def js_def)
  have items: "filter (\<lambda>pr. base_ref pr = js ''main'' \<and> head_ref pr = js ''changeset-release/main''
                  \<and> base_repo_full_name pr = js ''acme/widgets''
                  \<and> head_repo_full_name pr = js ''acme/widgets'')
          (res_json (ok_response [pr_release, pr_fork, pr_other_base])) = [pr_release]"
    by (simp add: ok_response_def pr_release_def pr_fork_def pr_other_base_def js_def)
  from alternate_search_filters [OF h1 h2 h3, of "js ''changeset-release/main''" "js ''main''" "[]"]
  have "issuesAndPullRequests gitea_env (js ''acme/widgets'') (js ''changeset-release/main'')
         (js ''main'') []
       = (Inr (GiteaItems [pr_release]),
          [GiteaListPulls (js ''https://git.example/api/v1/repos/acme/widgets/pulls?state=open'')])"
    unfolding items url by simp
  with h1 h2 h3 show ?thesis by blast
qed

section \<open>Properties of the publish orchestrator\<close>

lemma split_on_nonempty: "split_on d s \<noteq> []"
  by (induction s) (auto split: list.splits)

lemma split_ws_nonempty: "split_ws s \<noteq> []"
  by (induction s rule: split_ws.induct) (auto split: list.splits)

lemma run_script_runs:
  "\<exists>command args. split_ws script = command # args
     \<and> run_script e script = perform (Exec command args) (getExecOutput e command args)"
  using split_ws_nonempty [of script]
  by (cases "split_ws script") (simp_all add: run_script_def)

lemma try_lengths_Some:
  "try_lengths n s caps k = Some res \<Longrightarrow> \<exists>m. k (drop m s, caps) = Some res"
  by (induction n) (auto split: option.splits)

lemma matcher_Some:
  "matcher r x k = Some res \<Longrightarrow>
   \<exists>y. k y = Some res \<and> dom (snd x) \<union> always_captured r \<subseteq> dom (snd y)"
proof (induction r arbitrary: x k res)
  case (Lit l)
  then show ?case by (auto split: if_splits)
next
  case (Plus cls)
  then show ?case by (auto dest!: try_lengths_Some)
next
  case (Seq r1 r2)
  from Seq.prems have "matcher r1 x (\<lambda>y. matcher r2 y k) = Some res" by simp
  from Seq.IH(1) [OF this] obtain y1 where
    y1: "matcher r2 y1 k = Some res" "dom (snd x) \<union> always_captured r1 \<subseteq> dom (snd y1)" by blast
  from Seq.IH(2) [OF y1(1)] obtain y2 where
    y2: "k y2 = Some res" "dom (snd y1) \<union> always_captured r2 \<subseteq> dom (snd y2)" by blast
  from y1(2) y2(2) have "dom (snd x) \<union> always_captured (Seq r1 r2) \<subseteq> dom (snd y2)"
    by (simp del: dom_eq_empty_conv) blast
  with y2(1) show ?case by blast
next
  case (Alt r1 r2)
  show ?case
  proof (cases "matcher r1 x k")
    case None
    with Alt.prems have "matcher r2 x k = Some res" by simp
    from Alt.IH(2) [OF this] obtain y where
      "k y = Some res" "dom (snd x) \<union> always_captured r2 \<subseteq> dom (snd y)" by blast
    then show ?thesis by (intro exI [of _ y]) (simp, blast)
  next
    case (Some a)
    with Alt.prems have "matcher r1 x k = Some res" by simp
    from Alt.IH(1) [OF this] obtain y where
      "k y = Some res" "dom (snd x) \<union> always_captured r1 \<subseteq> dom (snd y)" by blast
    then show ?thesis by (intro exI [of _ y]) (simp, blast)
  qed
next
  case (Group n r)
  let ?k = "\<lambda>y. k (fst y, (snd y)(n \<mapsto> take (length (fst x) - length (fst y)) (fst x)))"
  from Group.prems have "matcher r x ?k = Some res" by simp
  from Group.IH [OF this] obtain y where
    y: "?k y = Some res" "dom (snd x) \<union> always_captured r \<subseteq> dom (snd y)" by blast
  then show ?case
    by (intro exI [of _ "(fst y, (snd y)(n \<mapsto> take (length (fst x) - length (fst y)) (fst x)))"])
       auto
qed

lemma regex_match_captured:
  "regex_match r s = Some match \<Longrightarrow> always_captured r \<subseteq> dom match"
proof (induction s)
  case Nil
  then show ?case by (auto dest!: matcher_Some)
next
  case (Cons c cs)
  then show ?case by (auto dest!: matcher_Some split: option.splits)
qed

lemma newTag_group1:
  assumes "regex_match newTagRegex line = Some match"
  shows "\<exists>pkgName. match 1 = Some pkgName"
proof -
  have "1 \<in> always_captured newTagRegex" by (simp add: newTagRegex_def)
  with regex_match_captured [OF assms] show ?thesis by auto
qed

lemma scan_new_tags_known:
  "those (map byName (announced_names lines)) = Some pkgs \<Longrightarrow>
   scan_new_tags byName lines acc = Inr (acc @ pkgs)"
proof (induction lines arbitrary: acc pkgs)
  case Nil
  then show ?case by simp
next
  case (Cons line lines)
  show ?case
  proof (cases "regex_match newTagRegex line")
    case None
    with Cons show ?thesis by (simp add: announced_name_def)
  next
    case (Some match)
    from newTag_group1 [OF Some] obtain pkgName where n: "match 1 = Some pkgName" by blast
    with Some Cons.prems obtain pkg rest where
      "byName pkgName = Some pkg" "those (map byName (announced_names lines)) = Some rest"
      "pkgs = pkg # rest"
      by (auto simp: announced_name_def split: option.splits)
    with Cons.IH [of rest "acc @ [pkg]"] Some n show ?thesis by simp
  qed
qed

lemma scan_new_tags_unknown:
  "find (\<lambda>pkgName. byName pkgName = None) (announced_names lines) = Some unknown \<Longrightarrow>
   scan_new_tags byName lines acc = Inl (package_not_found unknown)"
proof (induction lines arbitrary: acc)
  case Nil
  then show ?case by simp
next
  case (Cons line lines)
  show ?case
  proof (cases "regex_match newTagRegex line")
    case None
    with Cons show ?thesis by (simp add: announced_name_def)
  next
    case (Some match)
    from newTag_group1 [OF Some] obtain pkgName where n: "match 1 = Some pkgName" by blast
    show ?thesis
    proof (cases "byName pkgName")
      case None
      with Some n Cons.prems show ?thesis by (simp add: announced_name_def)
    next
      case (Some pkg)
      with \<open>regex_match newTagRegex line = Some match\<close> n Cons.prems Cons.IH [of "acc @ [pkg]"]
      show ?thesis by (simp add: announced_name_def)
    qed
  qed
qed

lemma lit_match: "regex_match (Lit l) s = (if str_includes s l then Some Map.empty else None)"
proof (induction s)
  case Nil
  then show ?case by (cases l) simp_all
next
  case (Cons c cs)
  then show ?case by simp
qed

lemma scan_first_tag_eq:
  "scan_first_tag e cgr pkg lines acc =
     (if \<exists>line \<in> set lines. str_includes line (js ''New tag:'')
      then bind_io (if cgr then createRelease e pkg (js ''v'' @ pkg_version pkg) else return_io ())
             (\<lambda>_. return_io (acc @ [pkg]))
      else return_io acc)"
  by (induction lines) (auto simp: newTagMarker_def lit_match)

lemma createRelease_at_most_one:
  assumes "createRelease e pkg tagName log = (r, log')"
  shows "\<exists>new. log' = log @ new \<and> length (release_requests new) \<le> 1
           \<and> (\<forall>request \<in> set (release_requests new).
                 rel_tag_name request = tagName \<and> rel_name request = tagName)"
  using assms
  by (auto simp: createRelease_def catch_io_def bind_io_def lift_io_def throw_io_def
      return_io_def perform_def Let_def split: sum.splits option.splits if_splits prod.splits)

lemma run_script_ok:
  "split_ws script = command # args \<Longrightarrow> getExecOutput e command args = Inr out \<Longrightarrow>
   run_script e script log = (Inr out, log @ [Exec command args])"
  by (simp add: run_script_def perform_def)

lemma runPublish_root:
  assumes pkgs: "getPackages e = Inr (pkg # others, js ''root'')"
    and script: "split_ws script = command # args"
    and out: "getExecOutput e command args = Inr stdout"
    and push: "git e PushTags = Inr ()"
  shows "runPublish e script createGithubReleases log =
           bind_io (scan_first_tag e createGithubReleases pkg (split_on 0xA stdout) [])
             (\<lambda>releasedPackages.
                return_io
                  (if releasedPackages \<noteq> []
                   then Published (map (\<lambda>pkg. (pkg_name pkg, pkg_version pkg)) releasedPackages)
                   else NotPublished))
             (log @ [Exec command args, Git PushTags])"
  by (simp add: runPublish_def bind_io_def run_script_ok [OF script out] perform_def push
      lift_io_def pkgs)

lemma runPublish_multi:
  assumes pkgs: "getPackages e = Inr (packages, tool)"
    and multi: "tool \<noteq> js ''root''"
    and script: "split_ws script = command # args"
    and out: "getExecOutput e command args = Inr stdout"
    and push: "git e PushTags = Inr ()"
  shows "runPublish e script createGithubReleases log =
           (case scan_new_tags (packagesByName packages) (split_on 0xA stdout) [] of
              Inl err \<Rightarrow> (Inl err, log @ [Exec command args, Git PushTags])
            | Inr releasedPackages \<Rightarrow>
                (case (if createGithubReleases
                       then promise_all
                              (map (\<lambda>pkg. createRelease e pkg
                                             (pkg_name pkg @ js ''@'' @ pkg_version pkg))
                                 releasedPackages)
                       else return_io ()) (log @ [Exec command args, Git PushTags]) of
                   (Inl err, l) \<Rightarrow> (Inl err, l)
                 | (Inr _, l) \<Rightarrow>
                     (Inr (if releasedPackages \<noteq> []
                           then Published (map (\<lambda>pkg. (pkg_name pkg, pkg_version pkg))
                                             releasedPackages)
                           else NotPublished), l)))"
  by (simp add: runPublish_def bind_io_def run_script_ok [OF script out] perform_def push
      lift_io_def pkgs multi return_io_def split: sum.splits prod.splits)

text \<open>
  C5: in multi-package mode, when every name announced by a line of the output is a
  known package, the scan yields the packages of the announced names, one entry per
  announcing line in the order of the lines (a name announced twice gives two entries),
  and the run reports them; when a name is unknown, the run throws the not-found error
  for the first such name before any release is attempted. The lines of the example
  announce \<open>pkg-a\<close> and \<open>@scope/pkg-b\<close> and yield these two packages in that
  order.
\<close>

theorem multi_package_tag_scan:
  assumes pkgs: "getPackages e = Inr (packages, tool)"
    and multi: "tool \<noteq> js ''root''"
    and script: "split_ws script = command # args"
    and out: "getExecOutput e command args = Inr stdout"
    and push: "git e PushTags = Inr ()"
    and run: "runPublish e script createGithubReleases log = (r, log')"
  shows "(\<forall>unknown.
            find (\<lambda>pkgName. packagesByName packages pkgName = None)
              (announced_names (split_on 0xA stdout)) = Some unknown \<longrightarrow>
            r = Inl (package_not_found unknown) \<and> log' = log @ [Exec command args, Git PushTags])
       \<and> (\<forall>released.
            those (map (packagesByName packages) (announced_names (split_on 0xA stdout)))
              = Some released \<longrightarrow>
            scan_new_tags (packagesByName packages) (split_on 0xA stdout) [] = Inr released
            \<and> (\<forall>result. r = Inr result \<longrightarrow>
                  result =
                    (if released = [] then NotPublished
                     else Published (map (\<lambda>pkg. (pkg_name pkg, pkg_version pkg)) released)))
            \<and> (\<not> createGithubReleases \<longrightarrow> (\<exists>result. r = Inr result)))
       \<and> announced_names
           [js ''New tag: pkg-a@1.2.3'', js ''noise'', js ''New tag: @scope/pkg-b@0.0.1'']
           = [js ''pkg-a'', js ''@scope/pkg-b'']
       \<and> scan_new_tags (packagesByName [pkg_a, pkg_b])
           [js ''New tag: pkg-a@1.2.3'', js ''noise'', js ''New tag: @scope/pkg-b@0.0.1''] []
           = Inr [pkg_a, pkg_b]"
proof -
  let ?names = "announced_names (split_on 0xA stdout)"
  note eq = runPublish_multi [OF pkgs multi script out push, of createGithubReleases log]
  have first: "\<forall>unknown.
            find (\<lambda>pkgName. packagesByName packages pkgName = None) ?names = Some unknown \<longrightarrow>
            r = Inl (package_not_found unknown) \<and> log' = log @ [Exec command args, Git PushTags]"
  proof (intro allI impI)
    fix unknown
    assume "find (\<lambda>pkgName. packagesByName packages pkgName = None) ?names = Some unknown"
    from scan_new_tags_unknown [OF this, of "[]"] run eq
    show "r = Inl (package_not_found unknown) \<and> log' = log @ [Exec command args, Git PushTags]"
      by simp
  qed
  have second: "\<forall>released.
            those (map (packagesByName packages) ?names) = Some released \<longrightarrow>
            scan_new_tags (packagesByName packages) (split_on 0xA stdout) [] = Inr released
            \<and> (\<forall>result. r = Inr result \<longrightarrow>
                  result =
                    (if released = [] then NotPublished
                     else Published (map (\<lambda>pkg. (pkg_name pkg, pkg_version pkg)) released)))
            \<and> (\<not> createGithubReleases \<longrightarrow> (\<exists>result. r = Inr result))"
  proof (intro allI impI)
    fix released
    assume "those (map (packagesByName packages) ?names) = Some released"
    from scan_new_tags_known [OF this, of "[]"]
    have scan: "scan_new_tags (packagesByName packages) (split_on 0xA stdout) [] = Inr released"
      by simp
    with run eq show "scan_new_tags (packagesByName packages) (split_on 0xA stdout) [] = Inr released
            \<and> (\<forall>result. r = Inr result \<longrightarrow>
                  result =
                    (if released = [] then NotPublished
                     else Published (map (\<lambda>pkg. (pkg_name pkg, pkg_version pkg)) released)))
            \<and> (\<not> createGithubReleases \<longrightarrow> (\<exists>result. r = Inr result))"
      by (auto simp: return_io_def split: prod.splits sum.splits if_splits)
  qed
  have a1: "announced_name (js ''New tag: pkg-a@1.2.3'') = Some (js ''pkg-a'')"
    by (simp add: announced_name_def newTagRegex_def js_def is_whitespace_def)
  have a2: "announced_name (js ''noise'') = None"
    by (simp add: announced_name_def newTagRegex_def js_def is_whitespace_def)
  have a3: "announced_name (js ''New tag: @scope/pkg-b@0.0.1'') = Some (js ''@scope/pkg-b'')"
    by (simp add: announced_name_def newTagRegex_def js_def is_whitespace_def)
  have third: "announced_names
           [js ''New tag: pkg-a@1.2.3'', js ''noise'', js ''New tag: @scope/pkg-b@0.0.1'']
           = [js ''pkg-a'', js ''@scope/pkg-b'']"
    by (simp add: a1 a2 a3)
  have known: "those (map (packagesByName [pkg_a, pkg_b]) [js ''pkg-a'', js ''@scope/pkg-b''])
         = Some [pkg_a, pkg_b]"
    by (simp add: packagesByName_def pkg_a_def pkg_b_def js_def)
  have fourth: "scan_new_tags (packagesByName [pkg_a, pkg_b])
           [js ''New tag: pkg-a@1.2.3'', js ''noise'', js ''New tag: @scope/pkg-b@0.0.1''] []
           = Inr [pkg_a, pkg_b]"
    using scan_new_tags_known [of "packagesByName [pkg_a, pkg_b]"
        "[js ''New tag: pkg-a@1.2.3'', js ''noise'', js ''New tag: @scope/pkg-b@0.0.1'']"
        "[pkg_a, pkg_b]" "[]"] known
    unfolding third by simp
  from first second third fourth show ?thesis by blast
qed


theorem multi_package_tag_scan_witness:
  "getPackages publish_env = Inr ([pkg_a, pkg_b], js ''yarn'')
   \<and> js ''yarn'' \<noteq> js ''root''
   \<and> split_ws (js ''npm run release'') = [js ''npm'', js ''run'', js ''release'']
   \<and> getExecOutput publish_env (js ''npm'') [js ''run'', js ''release'']
       = Inr (js ''New tag: pkg-a@1.2.3\<newline>noise\<newline>New tag: @scope/pkg-b@0.0.1'')
   \<and> git publish_env PushTags = Inr ()
   \<and> split_on 0xA (js ''New tag: pkg-a@1.2.3\<newline>noise\<newline>New tag: @scope/pkg-b@0.0.1'')
       = [js ''New tag: pkg-a@1.2.3'', js ''noise'', js ''New tag: @scope/pkg-b@0.0.1'']
   \<and> those (map (packagesByName [pkg_a, pkg_b]) [js ''pkg-a'', js ''@scope/pkg-b''])
       = Some [pkg_a, pkg_b]
   \<and> fst (runPublish publish_env (js ''npm run release'') False [])
       = Inr (Published [(js ''pkg-a'', js ''1.2.3''), (js ''@scope/pkg-b'', js ''0.0.1'')])
   \<and> scan_new_tags (packagesByName [pkg_a, pkg_b])
         [js ''New tag: pkg-a@1.2.3'', js ''New tag: pkg-a@1.2.3''] [] = Inr [pkg_a, pkg_a]
   \<and> scan_new_tags (packagesByName [pkg_a, pkg_b]) [js ''New tag: unknown-pkg@1.0.0''] []
       = Inl (package_not_found (js ''unknown-pkg''))"
proof -
  let ?out = "js ''New tag: pkg-a@1.2.3\<newline>noise\<newline>New tag: @scope/pkg-b@0.0.1''"
  have h1: "getPackages publish_env = Inr ([pkg_a, pkg_b], js ''yarn'')"
    by (simp add: publish_env_def quiet_env_def)
  have h2: "js ''yarn'' \<noteq> js ''root''"
    by (simp add: js_def)
  have h3: "split_ws (js ''npm run release'') = [js ''npm'', js ''run'', js ''release'']"
    by (simp add: js_def is_whitespace_def)
  have h4: "getExecOutput publish_env (js ''npm'') [js ''run'', js ''release''] = Inr ?out"
    by (simp add: publish_env_def quiet_env_def)
  have h5: "git publish_env PushTags = Inr ()"
    by (simp add: publish_env_def quiet_env_def)
  have lines: "split_on 0xA ?out
       = [js ''New tag: pkg-a@1.2.3'', js ''noise'', js ''New tag: @scope/pkg-b@0.0.1'']"
    by (simp add: js_def)
  have known: "those (map (packagesByName [pkg_a, pkg_b]) [js ''pkg-a'', js ''@scope/pkg-b''])
         = Some [pkg_a, pkg_b]"
    by (simp add: packagesByName_def pkg_a_def pkg_b_def js_def)
  obtain r log' where
    run: "runPublish publish_env (js ''npm run release'') False [] = (r, log')"
    by force
  note inst = multi_package_tag_scan [OF h1 h2 h3 h4 h5 run]
  from inst have names: "announced_names (split_on 0xA ?out) = [js ''pkg-a'', js ''@scope/pkg-b'']"
    unfolding lines by blast
  from inst known have "\<exists>result. r = Inr result"
    "\<forall>result. r = Inr result \<longrightarrow>
       result = Published (map (\<lambda>pkg. (pkg_name pkg, pkg_version pkg)) [pkg_a, pkg_b])"
    unfolding names by auto
  then have "r = Inr (Published [(js ''pkg-a'', js ''1.2.3''), (js ''@scope/pkg-b'', js ''0.0.1'')])"
    by (auto simp: pkg_a_def pkg_b_def)
  with run have result: "fst (runPublish publish_env (js ''npm run release'') False [])
       = Inr (Published [(js ''pkg-a'', js ''1.2.3''), (js ''@scope/pkg-b'', js ''0.0.1'')])"
    by simp
  have a1: "announced_name (js ''New tag: pkg-a@1.2.3'') = Some (js ''pkg-a'')"
    by (simp add: announced_name_def newTagRegex_def js_def is_whitespace_def)
  have a4: "announced_name (js ''New tag: unknown-pkg@1.0.0'') = Some (js ''unknown-pkg'')"
    by (simp add: announced_name_def newTagRegex_def js_def is_whitespace_def)
  have twice: "scan_new_tags (packagesByName [pkg_a, pkg_b])
         [js ''New tag: pkg-a@1.2.3'', js ''New tag: pkg-a@1.2.3''] [] = Inr [pkg_a, pkg_a]"
    using scan_new_tags_known [of "packagesByName [pkg_a, pkg_b]"
        "[js ''New tag: pkg-a@1.2.3'', js ''New tag: pkg-a@1.2.3'']" "[pkg_a, pkg_a]" "[]"]
    by (simp add: a1) (simp add: packagesByName_def pkg_a_def pkg_b_def js_def)
  have unknown: "scan_new_tags (packagesByName [pkg_a, pkg_b])
         [js ''New tag: unknown-pkg@1.0.0''] [] = Inl (package_not_found (js ''unknown-pkg''))"
    using scan_new_tags_unknown [of "packagesByName [pkg_a, pkg_b]"
        "[js ''New tag: unknown-pkg@1.0.0'']" "js ''unknown-pkg''" "[]"]
    by (simp add: a4) (simp add: packagesByName_def pkg_a_def pkg_b_def js_def)
  from h1 h2 h3 h4 h5 lines known result twice unknown show ?thesis by blast
qed

text \<open>
  C6: in single-package mode, when some line of the output contains \<open>New tag:\<close> the
  run records the first package of the workspace exactly once, however many lines
  contain the marker, and, when release creation is enabled, calls \<open>createRelease\<close>
  once with the tag name \<open>v\<close> followed by the version; without a marker nothing is
  published. Every release request of the run has that tag name, and there is at most
  one.
\<close>

theorem single_package_first_tag:
  assumes pkgs: "getPackages e = Inr (pkg # others, js ''root'')"
    and script: "split_ws script = command # args"
    and out: "getExecOutput e command args = Inr stdout"
    and push: "git e PushTags = Inr ()"
    and run: "runPublish e script createGithubReleases log = (r, log')"
  shows "((\<exists>line \<in> set (split_on 0xA stdout). str_includes line (js ''New tag:'')) \<longrightarrow>
            (r, log') =
              (if createGithubReleases
               then (case createRelease e pkg (js ''v'' @ pkg_version pkg)
                            (log @ [Exec command args, Git PushTags]) of
                       (Inl err, l) \<Rightarrow> (Inl err, l)
                     | (Inr _, l) \<Rightarrow> (Inr (Published [(pkg_name pkg, pkg_version pkg)]), l))
               else (Inr (Published [(pkg_name pkg, pkg_version pkg)]),
                     log @ [Exec command args, Git PushTags])))
       \<and> (\<not> (\<exists>line \<in> set (split_on 0xA stdout). str_includes line (js ''New tag:'')) \<longrightarrow>
            (r, log') = (Inr NotPublished, log @ [Exec command args, Git PushTags]))
       \<and> (\<exists>new. release_requests log' = release_requests log @ new \<and> length new \<le> 1
             \<and> (\<forall>request \<in> set new.
                   rel_tag_name request = js ''v'' @ pkg_version pkg
                   \<and> rel_name request = js ''v'' @ pkg_version pkg))"
proof -
  let ?l2 = "log @ [Exec command args, Git PushTags]"
  let ?marked = "\<exists>line \<in> set (split_on 0xA stdout). str_includes line (js ''New tag:'')"
  have eq: "(r, log') =
      bind_io (scan_first_tag e createGithubReleases pkg (split_on 0xA stdout) [])
        (\<lambda>releasedPackages.
           return_io
             (if releasedPackages \<noteq> []
              then Published (map (\<lambda>pkg. (pkg_name pkg, pkg_version pkg)) releasedPackages)
              else NotPublished)) ?l2"
    using runPublish_root [OF pkgs script out push] run by simp
  have first: "?marked \<longrightarrow>
            (r, log') =
              (if createGithubReleases
               then (case createRelease e pkg (js ''v'' @ pkg_version pkg) ?l2 of
                       (Inl err, l) \<Rightarrow> (Inl err, l)
                     | (Inr _, l) \<Rightarrow> (Inr (Published [(pkg_name pkg, pkg_version pkg)]), l))
               else (Inr (Published [(pkg_name pkg, pkg_version pkg)]), ?l2))"
    unfolding eq scan_first_tag_eq
    by (auto simp: bind_io_def return_io_def split: prod.splits sum.splits)
  have second: "\<not> ?marked \<longrightarrow> (r, log') = (Inr NotPublished, ?l2)"
    unfolding eq scan_first_tag_eq
    by (auto simp: bind_io_def return_io_def)
  have third: "\<exists>new. release_requests log' = release_requests log @ new \<and> length new \<le> 1
             \<and> (\<forall>request \<in> set new.
                   rel_tag_name request = js ''v'' @ pkg_version pkg
                   \<and> rel_name request = js ''v'' @ pkg_version pkg)"
  proof (cases "?marked \<and> createGithubReleases")
    case True
    obtain rc lc where c: "createRelease e pkg (js ''v'' @ pkg_version pkg) ?l2 = (rc, lc)"
      by force
    from createRelease_at_most_one [OF c] obtain new where
      new: "lc = ?l2 @ new" "length (release_requests new) \<le> 1"
        "\<forall>request \<in> set (release_requests new).
           rel_tag_name request = js ''v'' @ pkg_version pkg
           \<and> rel_name request = js ''v'' @ pkg_version pkg"
      by blast
    from first True c have "log' = lc" by (auto split: sum.splits)
    with new show ?thesis
      by (intro exI [of _ "release_requests new"]) simp
  next
    case False
    with first second have "log' = ?l2" by (auto split: if_splits)
    then show ?thesis by (intro exI [of _ "[]"]) simp
  qed
  from first second third show ?thesis by blast
qed


theorem single_package_first_tag_witness:
  "getPackages root_env = Inr ([pkg_a], js ''root'')
   \<and> split_ws (js ''npm run release'') = [js ''npm'', js ''run'', js ''release'']
   \<and> getExecOutput root_env (js ''npm'') [js ''run'', js ''release'']
       = Inr (js ''noise\<newline>New tag: v1.0.0 created\<newline>New tag: v2.0.0 created'')
   \<and> git root_env PushTags = Inr ()
   \<and> split_on 0xA (js ''noise\<newline>New tag: v1.0.0 created\<newline>New tag: v2.0.0 created'')
       = [js ''noise'', js ''New tag: v1.0.0 created'', js ''New tag: v2.0.0 created'']
   \<and> str_includes (js ''New tag: v1.0.0 created'') (js ''New tag:'')
   \<and> str_includes (js ''New tag: v2.0.0 created'') (js ''New tag:'')
   \<and> runPublish root_env (js ''npm run release'') True []
       = (Inr (Published [(js ''pkg-a'', js ''1.2.3'')]),
          [Exec (js ''npm'') [js ''run'', js ''release''], Git PushTags,
           OctokitCreateRelease
             \<lparr>rel_name = js ''v1.2.3'', rel_tag_name = js ''v1.2.3'', rel_body = js ''notes'',
              rel_prerelease = False\<rparr> (js ''acme'') (js ''widgets'')])"
proof -
  let ?out = "js ''noise\<newline>New tag: v1.0.0 created\<newline>New tag: v2.0.0 created''"
  let ?l2 = "[Exec (js ''npm'') [js ''run'', js ''release''], Git PushTags]"
  have h1: "getPackages root_env = Inr ([pkg_a], js ''root'')"
    by (simp add: root_env_def quiet_env_def)
  have h2: "split_ws (js ''npm run release'') = [js ''npm'', js ''run'', js ''release'']"
    by (simp add: js_def is_whitespace_def)
  have h3: "getExecOutput root_env (js ''npm'') [js ''run'', js ''release''] = Inr ?out"
    by (simp add: root_env_def quiet_env_def)
  have h4: "git root_env PushTags = Inr ()"
    by (simp add: root_env_def quiet_env_def)
  have lines: "split_on 0xA ?out
       = [js ''noise'', js ''New tag: v1.0.0 created'', js ''New tag: v2.0.0 created'']"
    by (simp add: js_def)
  have m1: "str_includes (js ''New tag: v1.0.0 created'') (js ''New tag:'')"
    by (simp add: js_def)
  have m2: "str_includes (js ''New tag: v2.0.0 created'') (js ''New tag:'')"
    by (simp add: js_def)
  have create: "createRelease root_env pkg_a (js ''v'' @ pkg_version pkg_a) ?l2
       = (Inr (), ?l2 @ [OctokitCreateRelease
             \<lparr>rel_name = js ''v1.2.3'', rel_tag_name = js ''v1.2.3'', rel_body = js ''notes'',
              rel_prerelease = False\<rparr> (js ''acme'') (js ''widgets'')])"
    by (simp add: createRelease_def catch_io_def bind_io_def lift_io_def perform_def
        return_io_def Let_def root_env_def quiet_env_def truthy_def pkg_a_def)
       (simp add: js_def)
  obtain r log' where run: "runPublish root_env (js ''npm run release'') True [] = (r, log')"
    by force
  from single_package_first_tag [OF h1 h2 h3 h4 run]
  have "(r, log') = (Inr (Published [(js ''pkg-a'', js ''1.2.3'')]),
          ?l2 @ [OctokitCreateRelease
             \<lparr>rel_name = js ''v1.2.3'', rel_tag_name = js ''v1.2.3'', rel_body = js ''notes'',
              rel_prerelease = False\<rparr> (js ''acme'') (js ''widgets'')])"
    unfolding lines using m1 create by (simp add: pkg_a_def)
  with run h1 h2 h3 h4 lines m1 m2 show ?thesis by simp
qed

section \<open>Properties of the version orchestrator\<close>

lemma proposal_writes_append [simp]:
  "proposal_writes (xs @ ys) = proposal_writes xs @ proposal_writes ys"
  by (simp add: proposal_writes_def)

lemma quiet_lift: "quiet_step (lift_io a) (\<lambda>x. a = Inr x)"
  by (simp add: quiet_step_def lift_io_def)

lemma quiet_return: "quiet_step (return_io x) (\<lambda>_. True)"
  by (simp add: quiet_step_def return_io_def)

lemma quiet_throw: "quiet_step (throw_io err) R"
  by (simp add: quiet_step_def throw_io_def)

lemma quiet_perform:
  "\<not> is_proposal_write eff \<Longrightarrow> quiet_step (perform eff a) (\<lambda>_. True)"
  by (simp add: quiet_step_def perform_def proposal_writes_def)

lemma quiet_weaken: "quiet_step m R \<Longrightarrow> quiet_step m (\<lambda>_. True)"
  by (simp add: quiet_step_def)

lemma quiet_bind:
  assumes "quiet_step m R" and "\<And>x. quiet_step (f x) S"
  shows "quiet_step (bind_io m f) S"
  unfolding quiet_step_def
proof (intro allI impI)
  fix l r l'
  assume b: "bind_io m f l = (r, l')"
  obtain r1 l1 where m: "m l = (r1, l1)" by force
  with assms(1) have w1: "proposal_writes l1 = proposal_writes l"
    by (simp add: quiet_step_def)
  show "proposal_writes l' = proposal_writes l \<and> (\<forall>x. r = Inr x \<longrightarrow> S x)"
  proof (cases r1)
    case (Inl err)
    with b m w1 show ?thesis by (auto simp: bind_io_def)
  next
    case (Inr x)
    with b m have "f x l1 = (r, l')" by (simp add: bind_io_def)
    with assms(2) [of x] w1 show ?thesis by (simp add: quiet_step_def)
  qed
qed

lemma quiet_catch:
  assumes "quiet_step m R" and "\<And>err. quiet_step (h err) R"
  shows "quiet_step (catch_io m h) R"
  unfolding quiet_step_def
proof (intro allI impI)
  fix l r l'
  assume c: "catch_io m h l = (r, l')"
  obtain r1 l1 where m: "m l = (r1, l1)" by force
  with assms(1) have w1: "proposal_writes l1 = proposal_writes l" "\<forall>x. r1 = Inr x \<longrightarrow> R x"
    by (simp_all add: quiet_step_def)
  show "proposal_writes l' = proposal_writes l \<and> (\<forall>x. r = Inr x \<longrightarrow> R x)"
  proof (cases r1)
    case (Inl err)
    with c m have "h err l1 = (r, l')" by (simp add: catch_io_def)
    with assms(2) [of err] w1 show ?thesis by (simp add: quiet_step_def)
  next
    case (Inr x)
    with c m w1 show ?thesis by (simp add: catch_io_def)
  qed
qed

lemma quiet_tool: "quiet_step (run_version_tool e script) (\<lambda>_. True)"
proof (cases "truthy script")
  case True
  show ?thesis
  proof (cases "split_ws (env_text script)")
    case Nil
    with True show ?thesis by (simp add: run_version_tool_def quiet_throw)
  next
    case (Cons c cs)
    with True show ?thesis by (simp add: run_version_tool_def quiet_perform)
  qed
next
  case False
  have req: "quiet_step (requireChangesetsCliPkgJson e) (\<lambda>_. True)"
    unfolding requireChangesetsCliPkgJson_def
    by (intro quiet_catch quiet_weaken [OF quiet_lift]) (simp add: quiet_throw)
  from False show ?thesis
    unfolding run_version_tool_def Let_def
    by (simp only: if_False)
       (intro quiet_bind [OF req] quiet_bind [OF quiet_lift] quiet_perform, simp)
qed

lemma search_log:
  "issuesAndPullRequests e repo vb b l = (r, l') \<Longrightarrow>
   proposal_writes l' = proposal_writes l \<and> r = fst (issuesAndPullRequests e repo vb b [])"
proof (cases "truthy (GITEA_API_URL e)")
  case True
  assume "issuesAndPullRequests e repo vb b l = (r, l')"
  with True show ?thesis
    by (auto simp: issuesAndPullRequests_def perform_def proposal_writes_def bind_io_def
        throw_io_def return_io_def Let_def split: sum.splits if_splits)
next
  case False
  assume "issuesAndPullRequests e repo vb b l = (r, l')"
  with False show ?thesis
    by (auto simp: issuesAndPullRequests_def perform_def proposal_writes_def bind_io_def
        return_io_def Let_def split: sum.splits)
qed

lemma quiet_launch:
  "quiet_step (launch (issuesAndPullRequests e repo vb b))
     (\<lambda>x. x = fst (issuesAndPullRequests e repo vb b []))"
  unfolding quiet_step_def launch_def
  by (auto split: prod.splits dest: search_log)


lemma reconciles_bind:
  assumes "quiet_step m R" and "\<And>x. R x \<Longrightarrow> reconciles e opts (f x)"
  shows "reconciles e opts (bind_io m f)"
  unfolding reconciles_def
proof (intro allI impI)
  fix l r l'
  assume b: "bind_io m f l = (r, l')"
  obtain r1 l1 where m: "m l = (r1, l1)" by force
  with assms(1) have w1: "proposal_writes l1 = proposal_writes l" "\<forall>x. r1 = Inr x \<longrightarrow> R x"
    by (simp_all add: quiet_step_def)
  show "reconciled e opts l r l'"
  proof (cases r1)
    case (Inl err)
    with b m w1 show ?thesis by (auto simp: bind_io_def reconciled_def)
  next
    case (Inr x)
    with b m have "f x l1 = (r, l')" by (simp add: bind_io_def)
    moreover from Inr w1 have "R x" by simp
    ultimately have "reconciled e opts l1 r l'"
      using assms(2) [of x] by (simp add: reconciles_def)
    then show ?thesis unfolding reconciled_def w1(1) .
  qed
qed

lemma createPullRequest_eq:
  "createPullRequest e base head title body l =
     (fst (createPullRequest e base head title body []),
      l @ [create_request e base head title body])"
  by (simp add: createPullRequest_def create_request_def perform_def bind_io_def
      throw_io_def return_io_def split: sum.split)

lemma createPullRequest_log:
  "createPullRequest e base head title body l = (r, l') \<Longrightarrow>
   l' = l @ [create_request e base head title body]
   \<and> r = fst (createPullRequest e base head title body [])"
  using createPullRequest_eq [of e base head title body l] by simp

lemma updatePullRequest_eq:
  "updatePullRequest e n title body l =
     (fst (updatePullRequest e n title body []), l @ [update_request e n title body])"
  by (simp add: updatePullRequest_def update_request_def perform_def bind_io_def
      throw_io_def return_io_def Let_def split: sum.split)

lemma updatePullRequest_log:
  "updatePullRequest e n title body l = (r, l') \<Longrightarrow>
   l' = l @ [update_request e n title body]
   \<and> r = fst (updatePullRequest e n title body [])"
  using updatePullRequest_eq [of e n title body l] by simp

lemma proposal_writes_create [simp]:
  "proposal_writes [create_request e b h t bd] = [create_request e b h t bd]"
  by (simp add: create_request_def proposal_writes_def)

lemma proposal_writes_update [simp]:
  "proposal_writes [update_request e n t bd] = [update_request e n t bd]"
  by (simp add: update_request_def proposal_writes_def)

lemma reconciles_decision:
  assumes search: "fst (issuesAndPullRequests e (context_owner e @ js ''/'' @ context_repo e)
                     (version_branch (base_branch e opts)) (base_branch e opts) []) = Inr items"
  shows "reconciles e opts
           (case item_numbers items of
              [] \<Rightarrow> createPullRequest e (base_branch e opts)
                      (version_branch (base_branch e opts)) title body
            | number # _ \<Rightarrow>
                bind_io (updatePullRequest e number title body) (\<lambda>_. return_io number))"
  unfolding reconciles_def
proof (intro allI impI)
  fix l r l'
  assume run: "(case item_numbers items of
              [] \<Rightarrow> createPullRequest e (base_branch e opts)
                      (version_branch (base_branch e opts)) title body
            | number # _ \<Rightarrow>
                bind_io (updatePullRequest e number title body) (\<lambda>_. return_io number)) l
          = (r, l')"
  show "reconciled e opts l r l'"
  proof (cases "item_numbers items")
    case Nil
    with run createPullRequest_log [of e "base_branch e opts"
        "version_branch (base_branch e opts)" title body l r l']
    have "l' = l @ [create_request e (base_branch e opts)
                      (version_branch (base_branch e opts)) title body]"
      "r = fst (createPullRequest e (base_branch e opts)
                  (version_branch (base_branch e opts)) title body [])"
      by simp_all
    with search Nil show ?thesis
      unfolding reconciled_def
      by (intro disjI2 exI [of _ items] exI [of _ title] exI [of _ body]) simp
  next
    case (Cons number rest)
    obtain ru lu where u: "updatePullRequest e number title body l = (ru, lu)" by force
    from updatePullRequest_log [OF u] have
      lu: "lu = l @ [update_request e number title body]"
      and ru: "ru = fst (updatePullRequest e number title body [])" by simp_all
    from run Cons u have "l' = lu" "r = (case ru of Inl err \<Rightarrow> Inl err | Inr _ \<Rightarrow> Inr number)"
      by (auto simp: bind_io_def return_io_def split: sum.splits)
    with search Cons lu ru show ?thesis
      unfolding reconciled_def
      by (intro disjI2 exI [of _ items] exI [of _ title] exI [of _ body]) simp
  qed
qed


lemma runVersion_reconciles: "reconciles e opts (runVersion e opts)"
  unfolding runVersion_def Let_def
  apply (rule reconciles_bind [OF quiet_lift])
  apply (rule reconciles_bind [OF quiet_perform], simp)
  apply (rule reconciles_bind [OF quiet_perform], simp)
  apply (rule reconciles_bind [OF quiet_lift])
  apply (rule reconciles_bind [OF quiet_tool])
  apply (rule reconciles_bind [OF quiet_launch])
  apply (rule reconciles_bind [OF quiet_lift])
  apply (rule reconciles_bind [OF quiet_lift])
  apply (rule reconciles_bind [where R = "\<lambda>_. True"])
   apply (simp add: quiet_perform quiet_return)
  apply (rule reconciles_bind [OF quiet_perform], simp)
  apply (rule reconciles_bind [OF quiet_lift])
  apply (rule reconciles_bind [OF quiet_lift])
  apply (rule reconciles_decision)
  apply simp
  done

text \<open>
  C7: the head branch is the fixed prefix \<open>changeset-release/\<close> followed by the
  base branch. A run of \<open>runVersion\<close> either fails without having written a
  proposal, or its search for the open proposals of that base and head has returned and
  the run sends exactly one proposal write: the creation of a proposal for that base and
  head when the search returned no match, and otherwise the update of title and body of
  the first match, whose number the run returns. A second run that finds the proposal of
  the first therefore updates it and creates none.
\<close>

theorem version_proposal_reconciled:
  assumes run: "runVersion e opts log = (r, log')"
  shows "version_branch (base_branch e opts) = js ''changeset-release/'' @ base_branch e opts
       \<and> ((proposal_writes log' = proposal_writes log \<and> (\<exists>err. r = Inl err))
          \<or> (\<exists>items title body.
                fst (issuesAndPullRequests e (context_owner e @ js ''/'' @ context_repo e)
                       (version_branch (base_branch e opts)) (base_branch e opts) []) = Inr items
                \<and> (case item_numbers items of
                      [] \<Rightarrow>
                        proposal_writes log' = proposal_writes log
                          @ [create_request e (base_branch e opts)
                               (version_branch (base_branch e opts)) title body]
                        \<and> r = fst (createPullRequest e (base_branch e opts)
                                     (version_branch (base_branch e opts)) title body [])
                    | number # _ \<Rightarrow>
                        proposal_writes log' = proposal_writes log
                          @ [update_request e number title body]
                        \<and> r = (case fst (updatePullRequest e number title body []) of
                                 Inl err \<Rightarrow> Inl err
                               | Inr _ \<Rightarrow> Inr number))))"
proof -
  from runVersion_reconciles [of e opts] run have "reconciled e opts log r log'"
    by (simp add: reconciles_def)
  then show ?thesis
    unfolding reconciled_def by (simp add: version_branch_def)
qed

theorem version_proposal_reconciled_witness:
  "runVersion quiet_env no_options [] =
     (Inr 1,
      [Git (SwitchToMaybeExistingBranch (js ''changeset-release/main'')),
       Git (Reset (js ''abc123'')),
       Exec (js ''node'') [js ''/work/node_modules/@changesets/cli/bin.js'', js ''version''],
       OctokitSearch
         (js ''repo:acme/widgets+state:open+head:changeset-release/main+base:main+is:pull-request''),
       Git (Push (js ''changeset-release/main'') True),
       OctokitCreatePull (js ''main'') (js ''changeset-release/main'') (js ''Version Packages'')
         (getVersionPrBody False None [] 60000 (js ''main'')) (js ''acme'') (js ''widgets'')])
   \<and> runVersion second_run_env no_options [] =
     (Inr 1,
      [Git (SwitchToMaybeExistingBranch (js ''changeset-release/main'')),
       Git (Reset (js ''abc123'')),
       Exec (js ''node'') [js ''/work/node_modules/@changesets/cli/bin.js'', js ''version''],
       OctokitSearch
         (js ''repo:acme/widgets+state:open+head:changeset-release/main+base:main+is:pull-request''),
       Git (Push (js ''changeset-release/main'') True),
       OctokitUpdatePull 1 (js ''Version Packages'')
         (getVersionPrBody False None [] 60000 (js ''main'')) (js ''acme'') (js ''widgets'')])
   \<and> version_branch (base_branch quiet_env no_options) = js ''changeset-release/main''"
proof -
  have branch: "base_branch e no_options = js ''main''"
    if "context_ref e = js ''refs/heads/main''" for e
    using that by (simp add: base_branch_def no_options_def) (simp add: js_def)
  have b1: "base_branch quiet_env no_options = js ''main''"
    by (rule branch) (simp add: quiet_env_def)
  have b2: "base_branch second_run_env no_options = js ''main''"
    by (rule branch) (simp add: second_run_env_def quiet_env_def)
  have vb: "version_branch (js ''main'') = js ''changeset-release/main''"
    by (simp add: version_branch_def js_def)
  have tool: "run_version_tool e None l =
      (Inr (), l @ [Exec (js ''node'') [js ''/work/node_modules/@changesets/cli/bin.js'', js ''version'']])"
    if "requireChangesetsCliVersion e = Inr (js ''2.27.0'')"
      "semver_lt e = (\<lambda>a b. Inr False)"
      "resolveFrom e = (\<lambda>m. Inr (js ''/work/node_modules/'' @ m))"
      "exec e = (\<lambda>command args. Inr ())" for e l
    using that
    by (simp add: run_version_tool_def requireChangesetsCliPkgJson_def truthy_def catch_io_def
        bind_io_def lift_io_def perform_def Let_def)
       (simp add: js_def)
  have q: "js ''repo:'' @ js ''acme'' @ js ''/'' @ js ''widgets'' @ js ''+state:open+head:''
        @ js ''changeset-release/main'' @ js ''+base:'' @ js ''main'' @ js ''+is:pull-request''
      = js ''repo:acme/widgets+state:open+head:changeset-release/main+base:main+is:pull-request''"
    by (simp add: js_def)
  have run1: "runVersion quiet_env no_options [] =
     (Inr 1,
      [Git (SwitchToMaybeExistingBranch (js ''changeset-release/main'')),
       Git (Reset (js ''abc123'')),
       Exec (js ''node'') [js ''/work/node_modules/@changesets/cli/bin.js'', js ''version''],
       OctokitSearch
         (js ''repo:acme/widgets+state:open+head:changeset-release/main+base:main+is:pull-request''),
       Git (Push (js ''changeset-release/main'') True),
       OctokitCreatePull (js ''main'') (js ''changeset-release/main'') (js ''Version Packages'')
         (getVersionPrBody False None [] 60000 (js ''main'')) (js ''acme'') (js ''widgets'')])"
    unfolding runVersion_def Let_def b1 vb
    by (simp add: tool quiet_env_def no_options_def bind_io_def lift_io_def perform_def
        launch_def issuesAndPullRequests_def createPullRequest_def truthy_def return_io_def
        pre_suffix_def MAX_CHARACTERS_PER_MESSAGE_def q)
  have run2: "runVersion second_run_env no_options [] =
     (Inr 1,
      [Git (SwitchToMaybeExistingBranch (js ''changeset-release/main'')),
       Git (Reset (js ''abc123'')),
       Exec (js ''node'') [js ''/work/node_modules/@changesets/cli/bin.js'', js ''version''],
       OctokitSearch
         (js ''repo:acme/widgets+state:open+head:changeset-release/main+base:main+is:pull-request''),
       Git (Push (js ''changeset-release/main'') True),
       OctokitUpdatePull 1 (js ''Version Packages'')
         (getVersionPrBody False None [] 60000 (js ''main'')) (js ''acme'') (js ''widgets'')])"
    unfolding runVersion_def Let_def b2 vb
    by (simp add: tool second_run_env_def quiet_env_def no_options_def bind_io_def lift_io_def
        perform_def launch_def issuesAndPullRequests_def updatePullRequest_def truthy_def
        return_io_def pre_suffix_def MAX_CHARACTERS_PER_MESSAGE_def q)
  from version_proposal_reconciled [OF run1]
  have "version_branch (base_branch quiet_env no_options) = js ''changeset-release/main''"
    unfolding b1 vb by (simp add: js_def)
  with run1 run2 show ?thesis by blast
qed

end
